theory Spec2Isabelle
  imports Main "HOL-Library.Multiset"
begin

section \<open>Common runtime model\<close>

text \<open>
  The sources are TypeScript. A thrown exception is a value of \<open>error\<close>;
  a function that may throw returns \<open>error + 'a\<close>, with \<open>Inl\<close> the exception.
  \<open>undefined\<close> is \<open>None\<close>. \<open>AxiosError\<close> is the rejection of an HTTP request.
\<close>

datatype error = AssertionError | TypeError | SyntaxError | AxiosError

text \<open>
  A number of the language is a double. It is represented by the text that the
  language prints for it (\<open>String(n)\<close>, as a template literal does): \<open>42\<close>,
  \<open>0.5\<close>, \<open>-3\<close>, \<open>1e+21\<close>. Two numbers that print differently are different.
\<close>

datatype jsNumber = JsNumber (numberToString: string)

text \<open>
  JSON values. An object is the list of its entries in the order \<open>Object.entries\<close>
  gives them.
\<close>

datatype json =
  JNull | JBool bool | JNum jsNumber | JStr string | JArr "json list"
  | JObj "(string \<times> json) list"

subsection \<open>Strings\<close>

text \<open>\<open>s.split(c)\<close> for a one-character separator.\<close>

fun splitOn :: "char \<Rightarrow> string \<Rightarrow> string list" where
  "splitOn c [] = [[]]"
| "splitOn c (x # xs) =
     (if x = c then [] # splitOn c xs
      else (case splitOn c xs of [] \<Rightarrow> [[x]] | w # ws \<Rightarrow> (x # w) # ws))"

text \<open>\<open>xs.join(sep)\<close>.\<close>

fun joinWith :: "string \<Rightarrow> string list \<Rightarrow> string" where
  "joinWith sep [] = []"
| "joinWith sep [x] = x"
| "joinWith sep (x # y # ys) = x @ sep @ joinWith sep (y # ys)"

definition endsWith :: "string \<Rightarrow> string \<Rightarrow> bool" where
  "endsWith s suffix =
     (length suffix \<le> length s \<and> drop (length s - length suffix) s = suffix)"

text \<open>The decimal numeral of a natural number.\<close>

definition digitChar :: "nat \<Rightarrow> char" where
  "digitChar d = char_of (48 + d)"

function showNat :: "nat \<Rightarrow> string" where
  "showNat n = (if n < 10 then [digitChar n] else showNat (n div 10) @ [digitChar (n mod 10)])"
  by pat_completeness auto
termination
  by (relation "measure id") auto

subsection \<open>The \<open>join\<close> of the \<open>path\<close> module\<close>

text \<open>
  \<open>pathJoin\<close> is \<open>join\<close> of the POSIX \<open>path\<close> module: the non-empty arguments
  are joined with \<open>/\<close> and the result is normalised. Normalisation works on the
  segments between slashes: empty segments and \<open>.\<close> are dropped, \<open>..\<close> removes the
  segment before it; where there is none (or it is itself \<open>..\<close>), \<open>..\<close> is kept in
  a relative path and dropped in an absolute one. \<open>stack\<close> holds the segments kept
  so far, the last one first.
\<close>

fun normalizeSegments :: "bool \<Rightarrow> string list \<Rightarrow> string list \<Rightarrow> string list" where
  "normalizeSegments allowAboveRoot stack [] = rev stack"
| "normalizeSegments allowAboveRoot stack (seg # segs) =
     (if seg = [] \<or> seg = ''.'' then normalizeSegments allowAboveRoot stack segs
      else if seg = ''..'' then
        (case stack of
           t # below \<Rightarrow>
             (if t = ''..'' then normalizeSegments allowAboveRoot (''..'' # stack) segs
              else normalizeSegments allowAboveRoot below segs)
         | [] \<Rightarrow>
             (if allowAboveRoot then normalizeSegments allowAboveRoot [''..''] segs
              else normalizeSegments allowAboveRoot [] segs))
      else normalizeSegments allowAboveRoot (seg # stack) segs)"

definition normalize :: "string \<Rightarrow> string" where
  "normalize p =
     (if p = [] then ''.''
      else
        (let isAbsolute = (hd p = CHR ''/'');
             trailingSeparator = (last p = CHR ''/'');
             res = joinWith ''/''
                     (normalizeSegments (\<not> isAbsolute) [] (splitOn CHR ''/'' p))
         in if res = []
            then (if isAbsolute then ''/'' else if trailingSeparator then ''./'' else ''.'')
            else (if isAbsolute then ''/'' else []) @ res @
                 (if trailingSeparator then ''/'' else [])))"

definition pathJoin :: "string list \<Rightarrow> string" where
  "pathJoin args =
     (let parts = filter (\<lambda>a. a \<noteq> []) args
      in if parts = [] then ''.'' else normalize (joinWith ''/'' parts))"

subsection \<open>Segments of a path\<close>

text \<open>The segments of a path: what stands between slashes, without the empty ones and \<open>.\<close>\<close>

definition segmentsOf :: "string \<Rightarrow> string list" where
  "segmentsOf s = filter (\<lambda>seg. seg \<noteq> [] \<and> seg \<noteq> ''.'') (splitOn CHR ''/'' s)"

text \<open>
  A path written from its segments: the segments joined by slashes, after a slash when
  the path starts with one and before a slash when it ends with one; without segments
  it is \<open>/\<close>, \<open>./\<close> or \<open>.\<close>
\<close>

definition startsWithSlash :: "string \<Rightarrow> bool" where
  "startsWithSlash s = (s \<noteq> [] \<and> hd s = CHR ''/'')"

definition pathOfSegments :: "bool \<Rightarrow> string list \<Rightarrow> bool \<Rightarrow> string" where
  "pathOfSegments leadingSlash segs trailingSlash =
     (if segs = []
      then (if leadingSlash then ''/'' else if trailingSlash then ''./'' else ''.'')
      else (if leadingSlash then ''/'' else []) @ joinWith ''/'' segs @
           (if trailingSlash then ''/'' else []))"

section \<open>vaultSecretsManagerClient\<close>

definition version_v1 :: string where
  "version_v1 = ''v1''"

datatype httpMethod = GET | PUT | POST | DELETE

record httpRequest =
  http_method :: httpMethod
  http_url :: string
  http_params :: "(string \<times> string) list"
  http_data :: "json option"

definition ctxPathJoin :: "string \<Rightarrow> string list \<Rightarrow> string" where
  "ctxPathJoin engine args = pathJoin ([version_v1, engine] @ args)"

text \<open>
  \<open>partition\<close> of \<open>evt/tools/reducers\<close> gives a reducer and its seed
  \<open>[[], []]\<close>: the reducer appends the current element to the first array when
  the matcher holds and to the second otherwise.
\<close>

definition partitionReducer ::
  "('a \<Rightarrow> bool) \<Rightarrow> 'a list \<times> 'a list \<Rightarrow> 'a \<Rightarrow> 'a list \<times> 'a list" where
  "partitionReducer matcher previous current =
     (if matcher current then (fst previous @ [current], snd previous)
      else (fst previous, snd previous @ [current]))"

definition reducePartition :: "('a \<Rightarrow> bool) \<Rightarrow> 'a list \<Rightarrow> 'a list \<times> 'a list" where
  "reducePartition matcher arr = foldl (partitionReducer matcher) ([], []) arr"

record listResult =
  nodes :: "string list"
  leafs :: "string list"

text \<open>
  The requests of the four operations. \<open>axiosInstance\<close> is a parameter: it maps
  a request to the typed response body the code declares, or to the error of a
  rejected promise.
\<close>

definition listRequest :: "string \<Rightarrow> string \<Rightarrow> httpRequest" where
  "listRequest engine path =
     \<lparr> http_method = GET, http_url = ctxPathJoin engine [''metadata'', path],
       http_params = [(''list'', ''true'')], http_data = None \<rparr>"

definition getRequest :: "string \<Rightarrow> string \<Rightarrow> httpRequest" where
  "getRequest engine path =
     \<lparr> http_method = GET, http_url = ctxPathJoin engine [''data'', path],
       http_params = [], http_data = None \<rparr>"

definition putRequest :: "string \<Rightarrow> string \<Rightarrow> (string \<times> json) list \<Rightarrow> httpRequest" where
  "putRequest engine path secret =
     \<lparr> http_method = PUT, http_url = ctxPathJoin engine [''data'', path],
       http_params = [], http_data = Some (JObj [(''data'', JObj secret)]) \<rparr>"

definition deleteRequest :: "string \<Rightarrow> string \<Rightarrow> httpRequest" where
  "deleteRequest engine path =
     \<lparr> http_method = DELETE, http_url = ctxPathJoin engine [''data'', path],
       http_params = [], http_data = None \<rparr>"

definition secretsManagerClient_list ::
  "(httpRequest \<Rightarrow> error + string list) \<Rightarrow> string \<Rightarrow> string \<Rightarrow> error + listResult" where
  "secretsManagerClient_list axiosInstance engine path =
     (case axiosInstance (listRequest engine path) of
        Inl e \<Rightarrow> Inl e
      | Inr keys \<Rightarrow>
          (let (ns, ls) = reducePartition (\<lambda>key. endsWith key ''/'') keys
           in Inr \<lparr> nodes = ns, leafs = ls \<rparr>))"

subsection \<open>getVaultClientTranslator, client type CLI\<close>

definition escapeDoubleQuotes :: "string \<Rightarrow> string" where
  "escapeDoubleQuotes v =
     concat (map (\<lambda>c. if c = CHR 0x22 then [CHR 0x5C, CHR 0x22] else [c]) v)"

text \<open>
  One entry of the secret in the \<open>put\<close> command. \<open>JSON.stringify(value, null, 2)\<close>
  is the parameter \<open>jsonStringify\<close>.
\<close>

definition putEntry :: "(json \<Rightarrow> string) \<Rightarrow> string \<times> json \<Rightarrow> string" where
  "putEntry jsonStringify entry =
     fst entry @ ''='' @
     (case snd entry of
        JStr v \<Rightarrow> [CHR 0x22] @ escapeDoubleQuotes v @ [CHR 0x22]
      | JNum n \<Rightarrow> numberToString n
      | JBool b \<Rightarrow> (if b then ''true'' else ''false'')
      | other \<Rightarrow>
          joinWith [CHR 0x0A]
            [''-<<EOF'', ''heredoc > '' @ jsonStringify other, ''heredoc> EOF''])"

definition buildCmd_list :: "string \<Rightarrow> string \<Rightarrow> string" where
  "buildCmd_list engine path = ''vault kv list '' @ pathJoin [engine, path]"

definition buildCmd_get :: "string \<Rightarrow> string \<Rightarrow> string" where
  "buildCmd_get engine path = ''vault kv get '' @ pathJoin [engine, path]"

definition buildCmd_put ::
  "(json \<Rightarrow> string) \<Rightarrow> string \<Rightarrow> string \<Rightarrow> (string \<times> json) list \<Rightarrow> string" where
  "buildCmd_put jsonStringify engine path secret =
     joinWith [CHR '' '', CHR 0x5C, CHR 0x0A]
       ((''vault kv put '' @ pathJoin [engine, path]) # map (putEntry jsonStringify) secret)"

definition buildCmd_delete :: "string \<Rightarrow> string \<Rightarrow> string" where
  "buildCmd_delete engine path = ''vault kv delete '' @ pathJoin [engine, path]"

subsection \<open>The translator and the adapter in the words of the specification\<close>

text \<open>
  What the specification says of the two, to be compared with the functions above. The
  path of a command is \<open>engine/path\<close>: the segments of the engine followed by those of
  the path.
\<close>

definition specCommandPath :: "string \<Rightarrow> string \<Rightarrow> string" where
  "specCommandPath engine path =
     pathOfSegments (startsWithSlash (engine @ path)) (segmentsOf engine @ segmentsOf path)
       (endsWith (engine @ path) ''/'')"

text \<open>
  The address of a request is \<open>v1/engine/kind/path\<close>, where \<open>kind\<close> is \<open>metadata\<close> or
  \<open>data\<close>; it ends with a slash when the path does.
\<close>

definition specUrl :: "string \<Rightarrow> string \<Rightarrow> string \<Rightarrow> string" where
  "specUrl engine kind path =
     joinWith ''/'' (''v1'' # segmentsOf engine @ kind # segmentsOf path) @
     (if endsWith path ''/'' then ''/'' else [])"

text \<open>
  An entry of the secret is \<open>key=value\<close>: a string between double quotes with a
  backslash before each double quote inside it, a number or a boolean unquoted, any
  other value as a heredoc of its JSON text.
\<close>

definition specValue :: "(json \<Rightarrow> string) \<Rightarrow> json \<Rightarrow> string" where
  "specValue jsonText v =
     (case v of
        JStr str \<Rightarrow>
          [CHR 0x22] @
          concat (map (\<lambda>c. if c = CHR 0x22 then [CHR 0x5C, CHR 0x22] else [c]) str) @
          [CHR 0x22]
      | JNum n \<Rightarrow> numberToString n
      | JBool b \<Rightarrow> (if b then ''true'' else ''false'')
      | other \<Rightarrow>
          ''-<<EOF'' @ [CHR 0x0A] @ ''heredoc > '' @ jsonText other @ [CHR 0x0A] @
          ''heredoc> EOF'')"

definition specPutEntry :: "(json \<Rightarrow> string) \<Rightarrow> string \<times> json \<Rightarrow> string" where
  "specPutEntry jsonText entry = fst entry @ ''='' @ specValue jsonText (snd entry)"

subsection \<open>Examples\<close>

text \<open>\<open>JSON.stringify(value, null, 2)\<close> on \<open>null\<close>, on the empty object and on the empty array.\<close>

definition exampleJsonStringify :: "json \<Rightarrow> string" where
  "exampleJsonStringify v = (if v = JNull then ''null'' else if v = JObj [] then ''{}'' else ''[]'')"

text \<open>A secret with a string that holds a double quote, two numbers, a boolean and \<open>null\<close>.\<close>

definition exampleSecret :: "(string \<times> json) list" where
  "exampleSecret =
     [(''user'', JStr (''a'' @ [CHR 0x22] @ ''b'')),
      (''port'', JNum (JsNumber ''5432'')),
      (''big'', JNum (JsNumber ''1e+21'')),
      (''tls'', JBool True),
      (''owner'', JNull)]"

text \<open>A backend that answers the list request for \<open>team/\<close> of the engine \<open>kv\<close> with four keys.\<close>

definition exampleBackend :: "httpRequest \<Rightarrow> error + string list" where
  "exampleBackend request =
     (if http_method request = GET \<and> http_url request = ''v1/kv/metadata/team/''
         \<and> http_params request = [(''list'', ''true'')]
      then Inr [''db'', ''apps/'', ''mail'', ''apps/'']
      else Inl AxiosError)"

section \<open>vaultSecretsManagerClient: the Vault token\<close>


















subsection \<open>Invariants\<close>



subsection \<open>Examples\<close>



section \<open>usecases index\<close>

text \<open>
  Lines 1-18: each \<open>import * as x from "./x"\<close> binds the local name \<open>x\<close> to the
  namespace object of the module \<open>./x\<close>.
\<close>

definition importedModules :: "(string \<times> string) list" where
  "importedModules =
     [(''catalog'', ''./catalog''),
      (''deploymentRegionManagement'', ''./deploymentRegionManagement''),
      (''fileExplorer'', ''./fileExplorer''),
      (''secretExplorer'', ''./secretExplorer''),
      (''launcher'', ''./launcher''),
      (''publicIp'', ''./publicIp''),
      (''restorableConfigManagement'', ''./restorableConfigManagement''),
      (''serviceManagement'', ''./serviceManagement''),
      (''userAuthentication'', ''./userAuthentication''),
      (''userConfigs'', ''./userConfigs''),
      (''secretsEditor'', ''./secretsEditor''),
      (''s3Credentials'', ''./s3Credentials''),
      (''k8sCredentials'', ''./k8sCredentials''),
      (''vaultCredentials'', ''./vaultCredentials''),
      (''userAccountManagement'', ''./userAccountManagement''),
      (''sqlOlapShell'', ''./sqlOlapShell''),
      (''dataExplorer'', ''./dataExplorer''),
      (''projectManagement'', ''./projectManagement'')]"

text \<open>
  Lines 20-39: the object literal with one shorthand property per local name.
  \<open>resolve\<close> gives the namespace object of a module specifier.
\<close>

definition usecases :: "(string \<Rightarrow> 'm) \<Rightarrow> (string \<times> 'm) list" where
  "usecases resolve =
     [(''catalog'', resolve ''./catalog''),
      (''deploymentRegionManagement'', resolve ''./deploymentRegionManagement''),
      (''fileExplorer'', resolve ''./fileExplorer''),
      (''secretExplorer'', resolve ''./secretExplorer''),
      (''launcher'', resolve ''./launcher''),
      (''publicIp'', resolve ''./publicIp''),
      (''restorableConfigManagement'', resolve ''./restorableConfigManagement''),
      (''serviceManagement'', resolve ''./serviceManagement''),
      (''userAuthentication'', resolve ''./userAuthentication''),
      (''userConfigs'', resolve ''./userConfigs''),
      (''secretsEditor'', resolve ''./secretsEditor''),
      (''s3Credentials'', resolve ''./s3Credentials''),
      (''k8sCredentials'', resolve ''./k8sCredentials''),
      (''vaultCredentials'', resolve ''./vaultCredentials''),
      (''userAccountManagement'', resolve ''./userAccountManagement''),
      (''sqlOlapShell'', resolve ''./sqlOlapShell''),
      (''dataExplorer'', resolve ''./dataExplorer''),
      (''projectManagement'', resolve ''./projectManagement'')]"

section \<open>launcher: getChartInfos\<close>

text \<open>
  The catalog and chart data returned by \<open>onyxiaApi.getCatalogsAndCharts()\<close>.
  \<open>chartsByCatalogId\<close> is an object indexed by catalog id: an association list
  read with \<open>map_of\<close>.
\<close>

record catalog =
  catalog_id :: string
  catalog_name :: string
  catalog_repositoryUrl :: string

record chartVersionEntry =
  version :: string
  iconUrl :: "string option"

record chart =
  chart_name :: string
  versions :: "chartVersionEntry list"

record chartInfos =
  catalogName :: string
  catalogRepositoryUrl :: string
  chartIconUrl :: "string option"
  defaultChartVersion :: string
  chartVersion :: string
  availableChartVersions :: "string list"
  alerts :: "string list"

text \<open>
  The immediately invoked function of lines 1026-1047: the resolved version, and the
  message passed to \<open>alert\<close> when the pinned version is not available.
\<close>

definition resolveChartVersion ::
  "chart \<Rightarrow> catalog \<Rightarrow> string \<Rightarrow> string \<Rightarrow> string option \<Rightarrow> string \<times> string list" where
  "resolveChartVersion chart catalog chartName defaultVersion pinnedChartVersion =
     (case pinnedChartVersion of
        Some pinned \<Rightarrow>
          (if find (\<lambda>v. version v = pinned) (versions chart) = None
           then (defaultVersion,
                 [''No '' @ pinned @ '' version found for '' @ chartName @ '' in '' @
                  catalog_repositoryUrl catalog @ ''.'' @ [CHR 0x0A] @
                  ''Falling back to default version '' @ defaultVersion])
           else (pinned, []))
      | None \<Rightarrow> (defaultVersion, []))"

text \<open>
  \<open>Chart.getDefaultVersion\<close> is imported from \<open>core/ports/OnyxiaApi\<close>, which is
  not among the sources: it is the parameter \<open>getDefaultVersion\<close>.
  The two \<open>assert\<close>s throw when the catalog or the chart is not found; indexing
  \<open>chartsByCatalogId\<close> with an unknown id gives \<open>undefined\<close>, on which \<open>.find\<close>
  throws a TypeError, as does \<open>.iconUrl\<close> on the \<open>undefined\<close> that
  \<open>find(...)!\<close> gives when the resolved version is not a version of the chart.
\<close>

definition getChartInfos ::
  "(chart \<Rightarrow> string) \<Rightarrow> catalog list \<Rightarrow> (string \<times> chart list) list \<Rightarrow>
   string \<Rightarrow> string \<Rightarrow> string option \<Rightarrow> error + chartInfos" where
  "getChartInfos getDefaultVersion catalogs chartsByCatalogId catalogId chartName pinnedChartVersion =
     (case find (\<lambda>c. catalog_id c = catalogId) catalogs of
        None \<Rightarrow> Inl AssertionError
      | Some catalog \<Rightarrow>
          (case map_of chartsByCatalogId catalogId of
             None \<Rightarrow> Inl TypeError
           | Some charts \<Rightarrow>
               (case find (\<lambda>c. chart_name c = chartName) charts of
                  None \<Rightarrow> Inl AssertionError
                | Some chart \<Rightarrow>
                    (let defaultVersion = getDefaultVersion chart;
                         (resolved, msgs) =
                            resolveChartVersion chart catalog chartName defaultVersion
                              pinnedChartVersion
                     in case find (\<lambda>v. version v = resolved) (versions chart) of
                          None \<Rightarrow> Inl TypeError
                        | Some v \<Rightarrow>
                            Inr \<lparr> catalogName = catalog_name catalog,
                                  catalogRepositoryUrl = catalog_repositoryUrl catalog,
                                  chartIconUrl = iconUrl v,
                                  defaultChartVersion = defaultVersion,
                                  chartVersion = resolved,
                                  availableChartVersions = map version (versions chart),
                                  alerts = msgs \<rparr>))))"

section \<open>SearchBar component\<close>

text \<open>
  The component's two \<open>useState\<close> cells. A handler reads the values of the last
  render (\<open>useConstCallback\<close> always runs the latest closure) and its \<open>set...\<close>
  calls give the state of the next render, so a handler is a function from the
  rendered state to the next state and the effects it performed.
  \<open>inputRef.current\<close> is the input element, mounted exactly when \<open>isActive\<close>.
\<close>

record searchBarState =
  isActive :: bool
  search :: string

datatype effect = OnSearchChange string | Focus | SetSelectionRange nat nat

definition initialSearchBarState :: searchBarState where
  "initialSearchBarState = \<lparr> isActive = False, search = [] \<rparr>"

definition onClearButtonClick :: "searchBarState \<Rightarrow> searchBarState \<times> effect list" where
  "onClearButtonClick s = (s\<lparr> search := [] \<rparr>, if isActive s then [Focus] else [])"

definition onRootClick :: "searchBarState \<Rightarrow> searchBarState \<times> effect list" where
  "onRootClick s = (s\<lparr> isActive := True \<rparr>, [])"

definition onIconClick :: "searchBarState \<Rightarrow> searchBarState \<times> effect list" where
  "onIconClick s =
     (if \<not> isActive s then (s, [])
      else (s, [Focus, SetSelectionRange 0 (length (search s))]))"

definition onInputChange :: "string \<Rightarrow> searchBarState \<Rightarrow> searchBarState \<times> effect list" where
  "onInputChange v s = (s\<lparr> search := v \<rparr>, [OnSearchChange v])"

definition onInputKeyDown :: "string \<Rightarrow> searchBarState \<Rightarrow> searchBarState \<times> effect list" where
  "onInputKeyDown eventKey s =
     (let k = (if eventKey = ''Escape'' \<or> eventKey = ''Enter'' then eventKey
               else ''irrelevant'')
      in if k = ''irrelevant'' then (s, [])
         else
           (let s1 = (if k = ''Escape'' then s\<lparr> search := [] \<rparr> else s)
            in if search s \<noteq> [] then (s1, [])
               else (s1\<lparr> isActive := False \<rparr>, [])))"

definition onClickAway :: "searchBarState \<Rightarrow> searchBarState \<times> effect list" where
  "onClickAway s = (if search s \<noteq> [] then (s, []) else (s\<lparr> isActive := False \<rparr>, []))"

datatype handlerCall =
  ClearButtonClick | RootClick | IconClick | InputChange string
  | InputKeyDown string | ClickAway

fun handle :: "handlerCall \<Rightarrow> searchBarState \<Rightarrow> searchBarState \<times> effect list" where
  "handle ClearButtonClick s = onClearButtonClick s"
| "handle RootClick s = onRootClick s"
| "handle IconClick s = onIconClick s"
| "handle (InputChange v) s = onInputChange v s"
| "handle (InputKeyDown k) s = onInputKeyDown k s"
| "handle ClickAway s = onClickAway s"

text \<open>A run of handler calls from a state, with the effects in order.\<close>

fun run :: "handlerCall list \<Rightarrow> searchBarState \<Rightarrow> searchBarState \<times> effect list" where
  "run [] s = (s, [])"
| "run (c # cs) s =
     (let (s1, es1) = handle c s; (s2, es2) = run cs s1 in (s2, es1 @ es2))"

text \<open>The arguments of the calls of \<open>onSearchChange\<close> among a list of effects.\<close>

fun notified :: "effect list \<Rightarrow> string list" where
  "notified [] = []"
| "notified (OnSearchChange v # es) = v # notified es"
| "notified (_ # es) = notified es"

section \<open>launcher: getInitialFormFields\<close>

text \<open>
  The value of a form field (\<open>FormFieldValue["value"]\<close>): a string, a boolean, a
  number or \<open>{ type: "yaml", yamlStr }\<close>. \<open>formFieldValue\<close> is \<open>{ path, value }\<close>.
\<close>

datatype fieldValue = VString string | VBoolean bool | VNumber jsNumber | VYaml string

record formFieldValue =
  fv_path :: "string list"
  fv_value :: fieldValue

text \<open>
  A property of the values schema, as the walk reads it: the members it accesses, each
  absent (\<open>None\<close>) or present. \<open>"k" in x\<close> is \<open>d_k x \<noteq> None\<close>. The type
  declarations (\<open>JSONSchemaObject\<close>, \<open>JSONSchemaFormFieldDescription\<close>) are in
  \<open>core/ports/OnyxiaApi\<close>, which is not among the sources; the members are typed as the
  walk uses them. \<open>hidden\<close> is a boolean or \<open>{ path, value }\<close>.
\<close>

record xOnyxia =
  xo_readonly :: "bool option"
  xo_hidden :: "bool option"

record xSecurity =
  xs_pattern :: "string option"

datatype hidden = HiddenBoolean bool | HiddenReference string fieldValue

record jsonSchemaFormFieldDescription =
  d_type :: string
  d_title :: "string option"
  d_description :: "string option"
  d_default :: "json option"
  d_render :: "string option"
  d_sliderExtremity :: "string option"
  d_sliderExtremitySemantic :: "string option"
  d_sliderRangeId :: "string option"
  d_sliderMin :: "json option"
  d_sliderMax :: "json option"
  d_sliderStep :: "json option"
  d_sliderUnit :: "json option"
  d_minimum :: "json option"
  d_listEnum :: "json option"
  d_enum :: "json option"
  d_pattern :: "string option"
  d_hidden :: "hidden option"
  d_x_onyxia :: "xOnyxia option"
  d_x_security :: "xSecurity option"

text \<open>
  A node of the schema: its members and, when it has the key \<open>properties\<close>, the
  entries of that object in the order \<open>Object.entries\<close> gives them.
\<close>

datatype jsonSchemaNode =
  JsonSchemaNode (node_description: jsonSchemaFormFieldDescription)
                 (node_properties: "(string \<times> jsonSchemaNode) list option")

text \<open>
  The leaves of a \<open>properties\<close> object with their paths, in the order of the walk:
  a property is walked into when its type is \<open>object\<close> and it has the key
  \<open>properties\<close>; every other property is a leaf.
\<close>

function leaves ::
  "(string \<times> jsonSchemaNode) list \<Rightarrow> string list \<Rightarrow> (string list \<times> jsonSchemaFormFieldDescription) list" where
  "leaves [] currentPath = []"
| "leaves ((key, n) # rest) currentPath =
     (if d_type (node_description n) = ''object'' \<and> node_properties n \<noteq> None
      then leaves (the (node_properties n)) (currentPath @ [key])
      else [(currentPath @ [key], node_description n)])
     @ leaves rest currentPath"
  by pat_completeness auto
termination
  apply (relation "measure (\<lambda>(ps, p). size_list (size_prod (\<lambda>_. 0) size) ps)")
  apply auto
  subgoal for n rest by (cases n) auto
  done

text \<open>
  The form fields (\<open>FormField\<close>). \<open>formFieldCommon\<close> is the \<open>common\<close> object of
  line 735. The arguments of the constructors are, in order:
  boolean: value; object, array: the \<open>yamlStr\<close> of value and of defaultValue;
  integer: value, minimum; enum: value, enum;
  text: pattern, value, type (\<open>password\<close> or \<open>text\<close>), defaultValue, doRenderAsTextArea;
  simple slider: sliderMin, sliderUnit, sliderStep, sliderMax, value;
  range slider down: sliderExtremitySemantic, sliderRangeId, sliderMin, sliderUnit,
  sliderStep, value; range slider up: sliderExtremitySemantic, sliderRangeId, sliderMax,
  value.
\<close>

record formFieldCommon =
  ff_path :: "string list"
  ff_title :: string
  ff_description :: "string option"
  ff_isReadonly :: bool

datatype formField =
    FormFieldBoolean formFieldCommon "json option"
  | FormFieldObject formFieldCommon string string
  | FormFieldArray formFieldCommon string string
  | FormFieldInteger formFieldCommon "json option" "json option"
  | FormFieldEnum formFieldCommon "json option" "json option"
  | FormFieldText formFieldCommon "string option" "json option" string "json option" bool
  | FormFieldSliderSimple formFieldCommon "json option" "json option" "json option"
      "json option" "json option"
  | FormFieldSliderRangeDown formFieldCommon "string option" "string option" "json option"
      "json option" "json option" "json option"
  | FormFieldSliderRangeUp formFieldCommon "string option" "string option" "json option"
      "json option"

datatype isHidden = IsHiddenBoolean bool | IsHiddenFormFieldValue formFieldValue

record hiddenInfo =
  hi_path :: "string list"
  hi_isHidden :: isHidden

text \<open>
  The three arrays the walk pushes to, and the messages given to \<open>console.warn\<close>.
  \<open>ws_sensitiveConfigurations\<close> is \<open>undefined\<close> when the restorable configuration is
  not saved (lines 683-702).
\<close>

record walkState =
  ws_formFields :: "formField list"
  ws_infosAboutWhenFieldsShouldBeHidden :: "hiddenInfo list"
  ws_sensitiveConfigurations :: "formFieldValue list option"
  ws_warnings :: "string list"

text \<open>The template literal \<open>`${value}`\<close>.\<close>

definition templateString :: "fieldValue \<Rightarrow> string" where
  "templateString v =
     (case v of
        VString s \<Rightarrow> s
      | VBoolean b \<Rightarrow> (if b then ''true'' else ''false'')
      | VNumber n \<Rightarrow> numberToString n
      | VYaml y \<Rightarrow> ''[object Object]'')"

definition commonOf :: "string list \<Rightarrow> jsonSchemaFormFieldDescription \<Rightarrow> formFieldCommon" where
  "commonOf newCurrentPath d =
     \<lparr> ff_path = newCurrentPath,
       ff_title = (case d_title d of Some t \<Rightarrow> t | None \<Rightarrow> last newCurrentPath),
       ff_description = d_description d,
       ff_isReadonly =
         (case d_x_onyxia d of
            None \<Rightarrow> False
          | Some xo \<Rightarrow> (case xo_readonly xo of None \<Rightarrow> False | Some b \<Rightarrow> b)) \<rparr>"

definition renderWarning :: "formFieldCommon \<Rightarrow> jsonSchemaFormFieldDescription \<Rightarrow> string list" where
  "renderWarning common d =
     (case d_render d of
        None \<Rightarrow> []
      | Some r \<Rightarrow>
          (if find (\<lambda>known. known = r) [''slider'', ''textArea'', ''password'', ''list''] = None
           then [joinWith ''/'' (ff_path common) @ '' has render: '' @ [CHR 0x22] @ r @
                 [CHR 0x22] @ '' and it'' @ [CHR 0x27] @ ''s not supported'']
           else []))"

text \<open>
  The block \<open>security_warning\<close> (lines 910-940). \<open>regExp\<close> is the regular expression
  engine: \<open>regExp pat\<close> is \<open>None\<close> when \<open>new RegExp(pat)\<close> throws a SyntaxError and
  otherwise the \<open>test\<close> function of the expression.
\<close>

definition securityWarning ::
  "(string \<Rightarrow> (string \<Rightarrow> bool) option) \<Rightarrow> formFieldValue list \<Rightarrow> formFieldCommon \<Rightarrow>
   jsonSchemaFormFieldDescription \<Rightarrow> formFieldValue list option \<Rightarrow>
   error + formFieldValue list option" where
  "securityWarning regExp formFieldsValueDifferentFromDefault common d sensitive =
     (case sensitive of
        None \<Rightarrow> Inr None
      | Some flagged \<Rightarrow>
          (case (case d_x_security d of None \<Rightarrow> None | Some xs \<Rightarrow> xs_pattern xs) of
             None \<Rightarrow> Inr sensitive
           | Some pat \<Rightarrow>
               (case find (\<lambda>fv. fv_path fv = ff_path common)
                       formFieldsValueDifferentFromDefault of
                  None \<Rightarrow> Inr sensitive
                | Some fv \<Rightarrow>
                    (case regExp pat of
                       None \<Rightarrow> Inl SyntaxError
                     | Some test \<Rightarrow>
                         (if test (templateString (fv_value fv)) then Inr sensitive
                          else Inr (Some (flagged @
                                 [\<lparr> fv_path = ff_path common, fv_value = fv_value fv \<rparr>])))))))"

text \<open>
  The function whose result is pushed to \<open>formFields\<close> (lines 734-957), with the
  sensitive configurations before and after it. \<open>yamlStringify\<close> is \<open>yaml.stringify\<close>.
\<close>

definition formFieldOf ::
  "(string \<Rightarrow> (string \<Rightarrow> bool) option) \<Rightarrow> (json option \<Rightarrow> string) \<Rightarrow> formFieldValue list \<Rightarrow>
   string list \<Rightarrow> jsonSchemaFormFieldDescription \<Rightarrow> formFieldValue list option \<Rightarrow>
   error + formField \<times> formFieldValue list option" where
  "formFieldOf regExp yamlStringify formFieldsValueDifferentFromDefault newCurrentPath d sensitive =
     (let common = commonOf newCurrentPath d in
      if d_render d = Some ''slider'' then
        (case d_sliderExtremity d of
           Some extremity \<Rightarrow>
             (if extremity = ''down'' then
                Inr (FormFieldSliderRangeDown common (d_sliderExtremitySemantic d)
                       (d_sliderRangeId d) (d_sliderMin d) (d_sliderUnit d) (d_sliderStep d)
                       (d_default d), sensitive)
              else if extremity = ''up'' then
                Inr (FormFieldSliderRangeUp common (d_sliderExtremitySemantic d)
                       (d_sliderRangeId d) (d_sliderMax d) (d_default d), sensitive)
              else
                Inr (FormFieldSliderSimple common (d_sliderMin d) (d_sliderUnit d)
                       (d_sliderStep d) (d_sliderMax d) (d_default d), sensitive))
         | None \<Rightarrow>
             Inr (FormFieldSliderSimple common (d_sliderMin d) (d_sliderUnit d)
                    (d_sliderStep d) (d_sliderMax d) (d_default d), sensitive))
      else if d_type d = ''boolean'' then
        Inr (FormFieldBoolean common (d_default d), sensitive)
      else if d_type d = ''object'' \<or> d_type d = ''array'' then
        (let yamlStr = yamlStringify (d_default d) in
         if d_type d = ''array'' then Inr (FormFieldArray common yamlStr yamlStr, sensitive)
         else Inr (FormFieldObject common yamlStr yamlStr, sensitive))
      else if d_type d = ''integer'' \<or> d_type d = ''number'' then
        Inr (FormFieldInteger common (d_default d) (d_minimum d), sensitive)
      else if d_render d = Some ''list'' then
        Inr (FormFieldEnum common (d_default d) (d_listEnum d), sensitive)
      else if d_enum d \<noteq> None then
        Inr (FormFieldEnum common (d_default d) (d_enum d), sensitive)
      else
        (case securityWarning regExp formFieldsValueDifferentFromDefault common d sensitive of
           Inl e \<Rightarrow> Inl e
         | Inr sensitive1 \<Rightarrow>
             Inr (FormFieldText common (d_pattern d) (d_default d)
                    (if d_render d = Some ''password'' then ''password'' else ''text'')
                    (d_default d) (d_render d = Some ''textArea''), sensitive1)))"

text \<open>The \<open>isHidden\<close> member of the visibility entry (lines 962-985).\<close>

definition isHiddenOf :: "jsonSchemaFormFieldDescription \<Rightarrow> isHidden" where
  "isHiddenOf d =
     (case d_hidden d of
        None \<Rightarrow>
          (case (case d_x_onyxia d of None \<Rightarrow> None | Some xo \<Rightarrow> xo_hidden xo) of
             Some h \<Rightarrow> IsHiddenBoolean h
           | None \<Rightarrow> IsHiddenBoolean False)
      | Some (HiddenBoolean b) \<Rightarrow> IsHiddenBoolean b
      | Some (HiddenReference p v) \<Rightarrow>
          IsHiddenFormFieldValue \<lparr> fv_path = splitOn CHR ''/'' p, fv_value = v \<rparr>)"

text \<open>What the body of \<open>forEach\<close> does for a leaf.\<close>

definition leafStep ::
  "(string \<Rightarrow> (string \<Rightarrow> bool) option) \<Rightarrow> (json option \<Rightarrow> string) \<Rightarrow> formFieldValue list \<Rightarrow>
   string list \<Rightarrow> jsonSchemaFormFieldDescription \<Rightarrow> walkState \<Rightarrow> error + walkState" where
  "leafStep regExp yamlStringify formFieldsValueDifferentFromDefault newCurrentPath d st =
     (let st1 = st\<lparr> ws_warnings := ws_warnings st @ renderWarning (commonOf newCurrentPath d) d \<rparr>
      in case formFieldOf regExp yamlStringify formFieldsValueDifferentFromDefault
                newCurrentPath d (ws_sensitiveConfigurations st1) of
           Inl e \<Rightarrow> Inl e
         | Inr (field, sensitive1) \<Rightarrow>
             Inr (st1\<lparr> ws_formFields := ws_formFields st1 @ [field],
                       ws_sensitiveConfigurations := sensitive1,
                       ws_infosAboutWhenFieldsShouldBeHidden :=
                         ws_infosAboutWhenFieldsShouldBeHidden st1 @
                         [\<lparr> hi_path = newCurrentPath, hi_isHidden = isHiddenOf d \<rparr>] \<rparr>))"

text \<open>
  The recursive function \<open>callee\<close> on the entries of \<open>properties\<close>; an exception ends
  the walk.
\<close>

function callee ::
  "(string \<Rightarrow> (string \<Rightarrow> bool) option) \<Rightarrow> (json option \<Rightarrow> string) \<Rightarrow> formFieldValue list \<Rightarrow>
   (string \<times> jsonSchemaNode) list \<Rightarrow> string list \<Rightarrow> walkState \<Rightarrow> error + walkState" where
  "callee regExp yamlStringify diff [] currentPath st = Inr st"
| "callee regExp yamlStringify diff ((key, n) # rest) currentPath st =
     (let newCurrentPath = currentPath @ [key] in
      case (if d_type (node_description n) = ''object'' \<and> node_properties n \<noteq> None
            then callee regExp yamlStringify diff (the (node_properties n)) newCurrentPath st
            else leafStep regExp yamlStringify diff newCurrentPath (node_description n) st) of
        Inl e \<Rightarrow> Inl e
      | Inr st1 \<Rightarrow> callee regExp yamlStringify diff rest currentPath st1)"
  by pat_completeness auto
termination
  apply (relation "measure (\<lambda>(r, y, f, ps, p, st). size_list (size_prod (\<lambda>_. 0) size) ps)")
  apply auto
  subgoal for n rest by (cases n) auto
  done

text \<open>
  \<open>isRestorableConfigSaved\<close> is the result of
  \<open>dispatch(getIsRestorableConfigSaved(...))\<close>. \<open>Object.entries\<close> throws a TypeError on
  a schema without \<open>properties\<close>. The result holds the three members the function
  returns and, as \<open>warnings\<close>, the messages it gave to \<open>console.warn\<close>.
\<close>

record initialFormFields =
  formFields :: "formField list"
  infosAboutWhenFieldsShouldBeHidden :: "hiddenInfo list"
  sensitiveConfigurations :: "formFieldValue list option"
  warnings :: "string list"

definition getInitialFormFields ::
  "(string \<Rightarrow> (string \<Rightarrow> bool) option) \<Rightarrow> (json option \<Rightarrow> string) \<Rightarrow> bool \<Rightarrow>
   formFieldValue list \<Rightarrow> jsonSchemaNode \<Rightarrow> error + initialFormFields" where
  "getInitialFormFields regExp yamlStringify isRestorableConfigSaved
      formFieldsValueDifferentFromDefault valuesSchema =
     (case node_properties valuesSchema of
        None \<Rightarrow> Inl TypeError
      | Some props \<Rightarrow>
          (case callee regExp yamlStringify formFieldsValueDifferentFromDefault props []
                  \<lparr> ws_formFields = [], ws_infosAboutWhenFieldsShouldBeHidden = [],
                    ws_sensitiveConfigurations =
                      (if isRestorableConfigSaved then Some [] else None),
                    ws_warnings = [] \<rparr> of
             Inl e \<Rightarrow> Inl e
           | Inr st \<Rightarrow>
               Inr \<lparr> formFields = ws_formFields st,
                     infosAboutWhenFieldsShouldBeHidden =
                       ws_infosAboutWhenFieldsShouldBeHidden st,
                     sensitiveConfigurations = ws_sensitiveConfigurations st,
                     warnings = ws_warnings st \<rparr>))"

subsection \<open>Kinds of form fields, tested patterns and violations\<close>

text \<open>
  The kind of a form field, and the kind the specification gives to a leaf from its
  declared type, its \<open>render\<close> hint, its \<open>sliderExtremity\<close> and the presence of \<open>enum\<close>.
\<close>

datatype fieldKind =
  KindBoolean | KindInteger | KindEnum | KindSliderSimple | KindSliderRangeUp
  | KindSliderRangeDown | KindText | KindPassword | KindTextArea | KindArray | KindObject

fun formFieldCommonOf :: "formField \<Rightarrow> formFieldCommon" where
  "formFieldCommonOf (FormFieldBoolean c _) = c"
| "formFieldCommonOf (FormFieldObject c _ _) = c"
| "formFieldCommonOf (FormFieldArray c _ _) = c"
| "formFieldCommonOf (FormFieldInteger c _ _) = c"
| "formFieldCommonOf (FormFieldEnum c _ _) = c"
| "formFieldCommonOf (FormFieldText c _ _ _ _ _) = c"
| "formFieldCommonOf (FormFieldSliderSimple c _ _ _ _ _) = c"
| "formFieldCommonOf (FormFieldSliderRangeDown c _ _ _ _ _ _) = c"
| "formFieldCommonOf (FormFieldSliderRangeUp c _ _ _ _) = c"

fun kindOf :: "formField \<Rightarrow> fieldKind" where
  "kindOf (FormFieldBoolean _ _) = KindBoolean"
| "kindOf (FormFieldObject _ _ _) = KindObject"
| "kindOf (FormFieldArray _ _ _) = KindArray"
| "kindOf (FormFieldInteger _ _ _) = KindInteger"
| "kindOf (FormFieldEnum _ _ _) = KindEnum"
| "kindOf (FormFieldText _ _ _ t _ area) =
     (if t = ''password'' then KindPassword else if area then KindTextArea else KindText)"
| "kindOf (FormFieldSliderSimple _ _ _ _ _ _) = KindSliderSimple"
| "kindOf (FormFieldSliderRangeDown _ _ _ _ _ _ _) = KindSliderRangeDown"
| "kindOf (FormFieldSliderRangeUp _ _ _ _ _) = KindSliderRangeUp"

definition classify :: "string \<Rightarrow> string option \<Rightarrow> string option \<Rightarrow> bool \<Rightarrow> fieldKind" where
  "classify declaredType renderHint extremity hasEnum =
     (if renderHint = Some ''slider'' then
        (if extremity = Some ''down'' then KindSliderRangeDown
         else if extremity = Some ''up'' then KindSliderRangeUp
         else KindSliderSimple)
      else if declaredType = ''boolean'' then KindBoolean
      else if declaredType = ''array'' then KindArray
      else if declaredType = ''object'' then KindObject
      else if declaredType = ''integer'' \<or> declaredType = ''number'' then KindInteger
      else if renderHint = Some ''list'' \<or> hasEnum then KindEnum
      else if renderHint = Some ''password'' then KindPassword
      else if renderHint = Some ''textArea'' then KindTextArea
      else KindText)"

definition classifyLeaf :: "jsonSchemaFormFieldDescription \<Rightarrow> fieldKind" where
  "classifyLeaf d = classify (d_type d) (d_render d) (d_sliderExtremity d) (d_enum d \<noteq> None)"

definition isTextKind :: "fieldKind \<Rightarrow> bool" where
  "isTextKind k = (k = KindText \<or> k = KindPassword \<or> k = KindTextArea)"

text \<open>The leaf steps over a list of leaves, in order.\<close>

fun leafSteps ::
  "(string \<Rightarrow> (string \<Rightarrow> bool) option) \<Rightarrow> (json option \<Rightarrow> string) \<Rightarrow> formFieldValue list \<Rightarrow>
   (string list \<times> jsonSchemaFormFieldDescription) list \<Rightarrow> walkState \<Rightarrow> error + walkState" where
  "leafSteps regExp yamlStringify diff [] st = Inr st"
| "leafSteps regExp yamlStringify diff ((p, d) # ls) st =
     (case leafStep regExp yamlStringify diff p d st of
        Inl e \<Rightarrow> Inl e
      | Inr st1 \<Rightarrow> leafSteps regExp yamlStringify diff ls st1)"

text \<open>
  \<open>testedPattern\<close> is the security pattern the walk compiles at a leaf when the
  sensitive configurations are collected: the leaf is given a text field, declares a
  pattern and has a value in \<open>formFieldsValueDifferentFromDefault\<close>.
  \<open>violation\<close> is what such a leaf adds to the sensitive configurations.
\<close>

definition securityPatternOf :: "jsonSchemaFormFieldDescription \<Rightarrow> string option" where
  "securityPatternOf d = (case d_x_security d of None \<Rightarrow> None | Some xs \<Rightarrow> xs_pattern xs)"

definition testedPattern ::
  "formFieldValue list \<Rightarrow> string list \<times> jsonSchemaFormFieldDescription \<Rightarrow> string option" where
  "testedPattern diff leaf =
     (if isTextKind (classifyLeaf (snd leaf)) then
        (case securityPatternOf (snd leaf) of
           None \<Rightarrow> None
         | Some pat \<Rightarrow>
             (case find (\<lambda>fv. fv_path fv = fst leaf) diff of
                None \<Rightarrow> None
              | Some fv \<Rightarrow> Some pat))
      else None)"

definition patternCompiles ::
  "(string \<Rightarrow> (string \<Rightarrow> bool) option) \<Rightarrow> formFieldValue list \<Rightarrow>
   string list \<times> jsonSchemaFormFieldDescription \<Rightarrow> bool" where
  "patternCompiles regExp diff leaf =
     (case testedPattern diff leaf of None \<Rightarrow> True | Some pat \<Rightarrow> regExp pat \<noteq> None)"

definition violation ::
  "(string \<Rightarrow> (string \<Rightarrow> bool) option) \<Rightarrow> formFieldValue list \<Rightarrow>
   string list \<times> jsonSchemaFormFieldDescription \<Rightarrow> formFieldValue list" where
  "violation regExp diff leaf =
     (if isTextKind (classifyLeaf (snd leaf)) then
        (case securityPatternOf (snd leaf) of
           None \<Rightarrow> []
         | Some pat \<Rightarrow>
             (case find (\<lambda>fv. fv_path fv = fst leaf) diff of
                None \<Rightarrow> []
              | Some fv \<Rightarrow>
                  (case regExp pat of
                     None \<Rightarrow> []
                   | Some test \<Rightarrow>
                       (if test (templateString (fv_value fv)) then []
                        else [\<lparr> fv_path = fst leaf, fv_value = fv_value fv \<rparr>]))))
      else [])"

subsection \<open>Examples\<close>

text \<open>A description with a type and no other property.\<close>

definition plainDescription :: "string \<Rightarrow> jsonSchemaFormFieldDescription" where
  "plainDescription t =
     \<lparr> d_type = t, d_title = None, d_description = None, d_default = None, d_render = None,
       d_sliderExtremity = None, d_sliderExtremitySemantic = None, d_sliderRangeId = None,
       d_sliderMin = None, d_sliderMax = None, d_sliderStep = None, d_sliderUnit = None,
       d_minimum = None, d_listEnum = None, d_enum = None, d_pattern = None,
       d_hidden = None, d_x_onyxia = None, d_x_security = None \<rparr>"

text \<open>
  A regular expression engine for the examples: \<open>(\<close> is not a regular expression,
  \<open>^a$\<close> matches the string \<open>a\<close> only, every other pattern matches everything.
\<close>

definition exampleRegExp :: "string \<Rightarrow> (string \<Rightarrow> bool) option" where
  "exampleRegExp pat =
     (if pat = ''('' then None
      else if pat = ''^a$'' then Some (\<lambda>s. s = ''a'')
      else Some (\<lambda>s. True))"

definition exampleYamlStringify :: "json option \<Rightarrow> string" where
  "exampleYamlStringify v = []"

text \<open>
  A schema with an object holding a slider, a text field with a security pattern and a
  reference to another field for its visibility, and a hidden boolean.
\<close>

definition exampleProperties :: "(string \<times> jsonSchemaNode) list" where
  "exampleProperties =
     [(''resources'',
       JsonSchemaNode (plainDescription ''object'')
         (Some [(''cpu'',
                 JsonSchemaNode ((plainDescription ''string'')\<lparr> d_render := Some ''slider'' \<rparr>)
                   None)])),
      (''password'',
       JsonSchemaNode
         ((plainDescription ''string'')
            \<lparr> d_hidden := Some (HiddenReference ''resources/cpu'' (VString ''1'')),
              d_x_security := Some \<lparr> xs_pattern = Some ''^a$'' \<rparr> \<rparr>)
         None),
      (''enabled'',
       JsonSchemaNode ((plainDescription ''boolean'')\<lparr> d_hidden := Some (HiddenBoolean True) \<rparr>)
         None)]"

definition exampleValues :: "formFieldValue list" where
  "exampleValues = [\<lparr> fv_path = [''password''], fv_value = VString ''b'' \<rparr>]"

text \<open>A schema whose only leaf declares a security pattern that is not a regular expression.\<close>

definition brokenPatternProperties :: "(string \<times> jsonSchemaNode) list" where
  "brokenPatternProperties =
     [(''token'',
       JsonSchemaNode
         ((plainDescription ''string'')\<lparr> d_x_security := Some \<lparr> xs_pattern = Some ''('' \<rparr> \<rparr>)
         None)]"

text \<open>
  A schema with a hidden boolean leaf followed by a leaf whose security pattern is not
  a regular expression.
\<close>

definition hiddenThenBrokenProperties :: "(string \<times> jsonSchemaNode) list" where
  "hiddenThenBrokenProperties =
     [(''enabled'',
       JsonSchemaNode ((plainDescription ''boolean'')\<lparr> d_hidden := Some (HiddenBoolean True) \<rparr>)
         None),
      (''token'',
       JsonSchemaNode
         ((plainDescription ''string'')\<lparr> d_x_security := Some \<lparr> xs_pattern = Some ''('' \<rparr> \<rparr>)
         None)]"

text \<open>A schema whose only leaf is an enum that declares the security pattern \<open>^a$\<close>.\<close>

definition enumWithPatternProperties :: "(string \<times> jsonSchemaNode) list" where
  "enumWithPatternProperties =
     [(''password'',
       JsonSchemaNode
         ((plainDescription ''string'')
            \<lparr> d_enum := Some (JArr [JStr ''a'', JStr ''b'']),
              d_x_security := Some \<lparr> xs_pattern = Some ''^a$'' \<rparr> \<rparr>)
         None)]"

text \<open>
  A second constructor of regular expressions: \<open>^[0-9]+$\<close> matches the non-empty strings
  of digits, every other pattern matches everything. A schema whose only leaf is a text
  field with this security pattern, and the number \<open>1e+21\<close> as its value.
\<close>

definition digitsRegExp :: "string \<Rightarrow> (string \<Rightarrow> bool) option" where
  "digitsRegExp pat =
     (if pat = ''^[0-9]+$''
      then Some (\<lambda>s. s \<noteq> [] \<and> list_all (\<lambda>c. c \<in> set ''0123456789'') s)
      else Some (\<lambda>s. True))"

definition replicasProperties :: "(string \<times> jsonSchemaNode) list" where
  "replicasProperties =
     [(''replicas'',
       JsonSchemaNode
         ((plainDescription ''string'')
            \<lparr> d_x_security := Some \<lparr> xs_pattern = Some ''^[0-9]+$'' \<rparr> \<rparr>)
         None)]"

definition replicasValues :: "formFieldValue list" where
  "replicasValues = [\<lparr> fv_path = [''replicas''], fv_value = VNumber (JsNumber ''1e+21'') \<rparr>]"

section \<open>launcher: getXOnyxiaContext\<close>

text \<open>
  What the function reads: the state selected from the store, the values the awaited
  calls resolved to (\<open>publicIp\<close>, \<open>secretsManager.getToken()\<close>, \<open>s3Client.getToken\<close>,
  \<open>getHomeDirectoryPath\<close>) and the two random values; the model starts where these
  calls have resolved. The members of the region that are copied unchanged are JSON
  values.
\<close>

record user =
  u_username :: string
  u_familyName :: string
  u_firstName :: string
  u_email :: string

record userConfigs =
  uc_isDarkModeEnabled :: bool
  uc_gitName :: string
  uc_gitEmail :: string
  uc_gitCredentialCacheDuration :: int
  uc_githubPersonalAccessToken :: "string option"
  uc_kaggleApiToken :: "string option"

record regionVault =
  rv_url :: string
  rv_kvEngine :: string

datatype workingDirectory =
    BucketModeMulti (bucketNamePrefix: string) (bucketNamePrefixGroup: string)
  | BucketModeShared (bucketName: string)

record regionS3Params =
  s3p_sts :: "json option"
  s3p_url :: string
  s3p_region :: "string option"
  s3p_pathStyleAccess :: bool
  s3p_workingDirectory :: workingDirectory

record deploymentRegion =
  r_vault :: "regionVault option"
  r_s3Params :: "regionS3Params option"
  r_defaultIpProtection :: "json option"
  r_defaultNetworkPolicy :: "json option"
  r_allowedURIPatternForUserDefinedInitScript :: "json option"
  r_kafka :: "json option"
  r_from :: "json option"
  r_tolerations :: "json option"
  r_nodeSelector :: "json option"
  r_startupProbe :: "json option"
  r_sliders :: "json option"
  r_resources :: "json option"
  r_customValues :: "json option"
  r_kubernetesClusterDomain :: "json option"
  r_ingressClassName :: "json option"
  r_ingress :: "json option"
  r_route :: "json option"
  r_istio :: "json option"
  r_initScriptUrl :: "json option"
  r_proxyInjection :: "json option"
  r_packageRepositoryInjection :: "json option"
  r_certificateAuthorityInjection :: "json option"

record s3Config =
  ds_url :: string
  ds_accessKeyId :: string
  ds_secretAccessKey :: string
  ds_sessionToken :: "string option"
  ds_region :: string
  ds_workingDirectoryPath :: string
  ds_pathStyleAccess :: bool

record customS3Configs =
  cs3_indexForXOnyxia :: "nat option"
  cs3_availableConfigs :: "s3Config list"

record project =
  p_id :: string
  p_group :: "string option"

record s3Token =
  tok_accessKeyId :: string
  tok_secretAccessKey :: string
  tok_sessionToken :: "string option"

record coreInputs =
  in_publicIp :: string
  in_user :: user
  in_userConfigs :: userConfigs
  in_region :: deploymentRegion
  in_servicePassword :: string
  in_customS3Configs :: customS3Configs
  in_project :: project
  in_disablePersonalInfosInjectionInGroup :: bool
  in_currentLang :: string
  in_vaultToken :: string
  in_s3Token :: s3Token
  in_homeDirectoryPath :: string
  in_randomPassword :: string
  in_randomNumber :: nat

text \<open>The assembled context (\<open>XOnyxiaContext\<close>).\<close>

record xUser =
  user_idep :: string
  user_name :: string
  user_email :: string
  user_password :: string
  user_ip :: string
  user_darkMode :: bool
  user_lang :: string

record xProject =
  project_id :: string
  project_password :: string
  project_basic :: string

record xGit =
  git_name :: string
  git_email :: string
  git_credentials_cache_duration :: int
  git_token :: "string option"

record xVault =
  VAULT_ADDR :: string
  VAULT_TOKEN :: string
  VAULT_MOUNT :: string
  VAULT_TOP_DIR :: string

record xS3 =
  AWS_ACCESS_KEY_ID :: string
  AWS_SECRET_ACCESS_KEY :: string
  AWS_SESSION_TOKEN :: string
  AWS_BUCKET_NAME :: string
  AWS_DEFAULT_REGION :: string
  AWS_S3_ENDPOINT :: string
  s3_port :: int
  s3_pathStyleAccess :: bool

record xRegion =
  region_defaultIpProtection :: "json option"
  region_defaultNetworkPolicy :: "json option"
  region_allowedURIPattern :: "json option"
  region_kafka :: "json option"
  region_from :: "json option"
  region_tolerations :: "json option"
  region_nodeSelector :: "json option"
  region_startupProbe :: "json option"
  region_sliders :: "json option"
  region_resources :: "json option"
  region_customValues :: json

record xK8s =
  k8s_domain :: "json option"
  k8s_ingressClassName :: "json option"
  k8s_ingress :: "json option"
  k8s_route :: "json option"
  k8s_istio :: "json option"
  k8s_randomSubdomain :: string
  k8s_initScriptUrl :: "json option"

record xOnyxiaContext =
  ctx_user :: xUser
  ctx_service_oneTimePassword :: string
  ctx_project :: xProject
  ctx_git :: xGit
  ctx_vault :: xVault
  ctx_kaggleApiToken :: "string option"
  ctx_s3 :: xS3
  ctx_region :: xRegion
  ctx_k8s :: xK8s
  ctx_proxyInjection :: "json option"
  ctx_packageRepositoryInjection :: "json option"
  ctx_certificateAuthorityInjection :: "json option"

definition doInjectPersonalInfos :: "coreInputs \<Rightarrow> bool" where
  "doInjectPersonalInfos i =
     (p_group (in_project i) = None \<or> \<not> in_disablePersonalInfosInjectionInGroup i)"

definition vaultBlock :: "coreInputs \<Rightarrow> xVault" where
  "vaultBlock i =
     (case r_vault (in_region i) of
        None \<Rightarrow> \<lparr> VAULT_ADDR = [], VAULT_TOKEN = [], VAULT_MOUNT = [], VAULT_TOP_DIR = [] \<rparr>
      | Some v \<Rightarrow>
          \<lparr> VAULT_ADDR = rv_url v,
            VAULT_TOKEN = (if \<not> doInjectPersonalInfos i then [] else in_vaultToken i),
            VAULT_MOUNT = rv_kvEngine v,
            VAULT_TOP_DIR = in_homeDirectoryPath i \<rparr>)"

definition s3Credentials :: "coreInputs \<Rightarrow> error + string \<times> string \<times> string" where
  "s3Credentials i =
     (if \<not> doInjectPersonalInfos i then Inr ([], [], [])
      else
        (case tok_sessionToken (in_s3Token i) of
           None \<Rightarrow> Inl AssertionError
         | Some sessionToken \<Rightarrow>
             Inr (tok_accessKeyId (in_s3Token i), tok_secretAccessKey (in_s3Token i),
                  sessionToken)))"

text \<open>
  The \<open>s3\<close> member (lines 529-621). \<open>parseUrl\<close> and
  \<open>bucketNameAndObjectNameFromS3Path(...).bucketName\<close> are parameters; the two
  \<open>assert\<close>s throw. In a template literal \<open>undefined\<close> prints as \<open>undefined\<close>.
\<close>

definition s3Block ::
  "(string \<Rightarrow> string \<times> int option) \<Rightarrow> (string \<Rightarrow> string) \<Rightarrow> coreInputs \<Rightarrow> error + xS3" where
  "s3Block parseUrl bucketNameFromS3Path i =
     (case cs3_indexForXOnyxia (in_customS3Configs i) of
        Some idx \<Rightarrow>
          (if idx < length (cs3_availableConfigs (in_customS3Configs i)) then
             (let dataSource = cs3_availableConfigs (in_customS3Configs i) ! idx;
                  (host, port) = parseUrl (ds_url dataSource)
              in Inr \<lparr> AWS_ACCESS_KEY_ID = ds_accessKeyId dataSource,
                       AWS_SECRET_ACCESS_KEY = ds_secretAccessKey dataSource,
                       AWS_SESSION_TOKEN =
                         (case ds_sessionToken dataSource of None \<Rightarrow> [] | Some t \<Rightarrow> t),
                       AWS_BUCKET_NAME =
                         bucketNameFromS3Path (ds_workingDirectoryPath dataSource),
                       AWS_DEFAULT_REGION = ds_region dataSource,
                       AWS_S3_ENDPOINT = host,
                       s3_port = (case port of None \<Rightarrow> 443 | Some p \<Rightarrow> p),
                       s3_pathStyleAccess = ds_pathStyleAccess dataSource \<rparr>)
           else Inl AssertionError)
      | None \<Rightarrow>
          (case (case r_s3Params (in_region i) of
                   None \<Rightarrow> None
                 | Some s3Params \<Rightarrow>
                     (case s3p_sts s3Params of None \<Rightarrow> None | Some sts \<Rightarrow> Some s3Params)) of
             None \<Rightarrow>
               Inr \<lparr> AWS_ACCESS_KEY_ID = [], AWS_SECRET_ACCESS_KEY = [],
                     AWS_SESSION_TOKEN = [], AWS_BUCKET_NAME = [], AWS_DEFAULT_REGION = [],
                     AWS_S3_ENDPOINT = [], s3_port = 0, s3_pathStyleAccess = True \<rparr>
           | Some s3Params \<Rightarrow>
               (let (host, port) = parseUrl (s3p_url s3Params)
                in case s3Credentials i of
                     Inl e \<Rightarrow> Inl e
                   | Inr (accessKeyId, secretAccessKey, sessionToken) \<Rightarrow>
                       Inr \<lparr> AWS_ACCESS_KEY_ID = accessKeyId,
                             AWS_SECRET_ACCESS_KEY = secretAccessKey,
                             AWS_SESSION_TOKEN = sessionToken,
                             AWS_BUCKET_NAME =
                               (case s3p_workingDirectory s3Params of
                                  BucketModeMulti prefix prefixGroup \<Rightarrow>
                                    (case p_group (in_project i) of
                                       None \<Rightarrow> prefixGroup @ ''undefined''
                                     | Some g \<Rightarrow> prefix @ u_username (in_user i))
                                | BucketModeShared sharedName \<Rightarrow> sharedName),
                             AWS_DEFAULT_REGION =
                               (case s3p_region s3Params of None \<Rightarrow> [] | Some r \<Rightarrow> r),
                             AWS_S3_ENDPOINT = host,
                             s3_port = (case port of None \<Rightarrow> 443 | Some p \<Rightarrow> p),
                             s3_pathStyleAccess = s3p_pathStyleAccess s3Params \<rparr>)))"

text \<open>
  \<open>btoaUtf8\<close> is \<open>s \<mapsto> btoa(unescape(encodeURIComponent(s)))\<close>. The only exceptions
  are those of the \<open>s3\<close> member.
\<close>

definition getXOnyxiaContext ::
  "(string \<Rightarrow> string \<times> int option) \<Rightarrow> (string \<Rightarrow> string) \<Rightarrow> (string \<Rightarrow> string) \<Rightarrow>
   coreInputs \<Rightarrow> error + xOnyxiaContext" where
  "getXOnyxiaContext parseUrl bucketNameFromS3Path btoaUtf8 i =
     (case s3Block parseUrl bucketNameFromS3Path i of
        Inl e \<Rightarrow> Inl e
      | Inr s3 \<Rightarrow>
          Inr \<lparr> ctx_user =
                  \<lparr> user_idep = u_username (in_user i),
                    user_name = u_familyName (in_user i) @ '' '' @ u_firstName (in_user i),
                    user_email = u_email (in_user i),
                    user_password = in_servicePassword i,
                    user_ip = (if \<not> doInjectPersonalInfos i then ''0.0.0.0''
                               else in_publicIp i),
                    user_darkMode = uc_isDarkModeEnabled (in_userConfigs i),
                    user_lang = in_currentLang i \<rparr>,
                ctx_service_oneTimePassword = in_randomPassword i,
                ctx_project =
                  \<lparr> project_id = p_id (in_project i),
                    project_password = in_servicePassword i,
                    project_basic =
                      btoaUtf8 (p_id (in_project i) @ '':'' @ in_servicePassword i) \<rparr>,
                ctx_git =
                  (if \<not> doInjectPersonalInfos i then
                     \<lparr> git_name = [], git_email = [], git_credentials_cache_duration = 0,
                       git_token = None \<rparr>
                   else
                     \<lparr> git_name = uc_gitName (in_userConfigs i),
                       git_email = uc_gitEmail (in_userConfigs i),
                       git_credentials_cache_duration =
                         uc_gitCredentialCacheDuration (in_userConfigs i),
                       git_token = uc_githubPersonalAccessToken (in_userConfigs i) \<rparr>),
                ctx_vault = vaultBlock i,
                ctx_kaggleApiToken =
                  (if \<not> doInjectPersonalInfos i then None
                   else uc_kaggleApiToken (in_userConfigs i)),
                ctx_s3 = s3,
                ctx_region =
                  \<lparr> region_defaultIpProtection = r_defaultIpProtection (in_region i),
                    region_defaultNetworkPolicy = r_defaultNetworkPolicy (in_region i),
                    region_allowedURIPattern =
                      r_allowedURIPatternForUserDefinedInitScript (in_region i),
                    region_kafka = r_kafka (in_region i),
                    region_from = r_from (in_region i),
                    region_tolerations = r_tolerations (in_region i),
                    region_nodeSelector = r_nodeSelector (in_region i),
                    region_startupProbe = r_startupProbe (in_region i),
                    region_sliders = r_sliders (in_region i),
                    region_resources = r_resources (in_region i),
                    region_customValues =
                      (case r_customValues (in_region i) of
                         None \<Rightarrow> JObj []
                       | Some JNull \<Rightarrow> JObj []
                       | Some v \<Rightarrow> v) \<rparr>,
                ctx_k8s =
                  \<lparr> k8s_domain = r_kubernetesClusterDomain (in_region i),
                    k8s_ingressClassName = r_ingressClassName (in_region i),
                    k8s_ingress = r_ingress (in_region i),
                    k8s_route = r_route (in_region i),
                    k8s_istio = r_istio (in_region i),
                    k8s_randomSubdomain = showNat (in_randomNumber i),
                    k8s_initScriptUrl = r_initScriptUrl (in_region i) \<rparr>,
                ctx_proxyInjection = r_proxyInjection (in_region i),
                ctx_packageRepositoryInjection = r_packageRepositoryInjection (in_region i),
                ctx_certificateAuthorityInjection =
                  r_certificateAuthorityInjection (in_region i) \<rparr>)"

subsection \<open>Examples\<close>

text \<open>A group project with personal-info injection disabled.\<close>

definition exampleRegion :: deploymentRegion where
  "exampleRegion =
     \<lparr> r_vault = Some \<lparr> rv_url = ''https://vault.example'', rv_kvEngine = ''onyxia-kv'' \<rparr>,
       r_s3Params =
         Some \<lparr> s3p_sts = Some (JObj []), s3p_url = ''https://minio.example'',
                s3p_region = Some ''us-east-1'', s3p_pathStyleAccess = True,
                s3p_workingDirectory = BucketModeShared ''shared-bucket'' \<rparr>,
       r_defaultIpProtection = None, r_defaultNetworkPolicy = None,
       r_allowedURIPatternForUserDefinedInitScript = None, r_kafka = None, r_from = None,
       r_tolerations = None, r_nodeSelector = None, r_startupProbe = None, r_sliders = None,
       r_resources = None, r_customValues = None, r_kubernetesClusterDomain = None,
       r_ingressClassName = None, r_ingress = None, r_route = None, r_istio = None,
       r_initScriptUrl = None, r_proxyInjection = None, r_packageRepositoryInjection = None,
       r_certificateAuthorityInjection = None \<rparr>"

definition exampleInputs :: coreInputs where
  "exampleInputs =
     \<lparr> in_publicIp = ''203.0.113.7'',
       in_user = \<lparr> u_username = ''jdoe'', u_familyName = ''Doe'', u_firstName = ''Jane'',
                   u_email = ''jane@example.org'' \<rparr>,
       in_userConfigs =
         \<lparr> uc_isDarkModeEnabled = False, uc_gitName = ''Jane Doe'',
           uc_gitEmail = ''jane@example.org'', uc_gitCredentialCacheDuration = 3600,
           uc_githubPersonalAccessToken = Some ''ghp_personal'',
           uc_kaggleApiToken = Some ''kaggle_personal'' \<rparr>,
       in_region = exampleRegion,
       in_servicePassword = ''pw'',
       in_customS3Configs = \<lparr> cs3_indexForXOnyxia = None, cs3_availableConfigs = [] \<rparr>,
       in_project = \<lparr> p_id = ''project-team'', p_group = Some ''team'' \<rparr>,
       in_disablePersonalInfosInjectionInGroup = True,
       in_currentLang = ''en'',
       in_vaultToken = ''hvs.personal'',
       in_s3Token = \<lparr> tok_accessKeyId = ''STSKEY'', tok_secretAccessKey = ''STSSECRET'',
                     tok_sessionToken = Some ''STSSESSION'' \<rparr>,
       in_homeDirectoryPath = ''/projet-team'',
       in_randomPassword = ''otp'',
       in_randomNumber = 123456 \<rparr>"

definition exampleParseUrl :: "string \<Rightarrow> string \<times> int option" where
  "exampleParseUrl u = (u, None)"

text \<open>A custom S3 configuration chosen for the context in the project's configuration.\<close>

definition exampleCustomS3Configs :: customS3Configs where
  "exampleCustomS3Configs =
     \<lparr> cs3_indexForXOnyxia = Some 0,
       cs3_availableConfigs =
         [\<lparr> ds_url = ''https://s3.example'', ds_accessKeyId = ''CUSTOMKEY'',
            ds_secretAccessKey = ''CUSTOMSECRET'', ds_sessionToken = None,
            ds_region = ''eu-west-1'', ds_workingDirectoryPath = ''bucket/dir'',
            ds_pathStyleAccess = False \<rparr>] \<rparr>"

section \<open>Theorems\<close>

subsection \<open>Paths\<close>

lemma endsWith_slash: "endsWith key ''/'' = (key \<noteq> [] \<and> last key = CHR ''/'')"
proof (cases key rule: rev_cases)
  case Nil
  then show ?thesis by (simp add: endsWith_def)
next
  case (snoc ys y)
  then show ?thesis by (simp add: endsWith_def)
qed

lemma splitOn_not_Nil: "splitOn c s \<noteq> []"
  by (induction s) (auto split: list.splits)

lemma splitOn_append:
  "splitOn c (xs @ c # ys) = splitOn c xs @ splitOn c ys"
proof (induction xs)
  case Nil
  show ?case by simp
next
  case (Cons x xs)
  show ?case
  proof (cases "x = c")
    case True
    then show ?thesis using Cons.IH by simp
  next
    case False
    obtain w ws where w: "splitOn c xs = w # ws"
      using splitOn_not_Nil [of c xs] by (cases "splitOn c xs") auto
    show ?thesis using False Cons.IH w by simp
  qed
qed

lemma splitOn_no_separator: "c \<notin> set s \<Longrightarrow> splitOn c s = [s]"
  by (induction s) auto

lemma splitOn_segments_free: "seg \<in> set (splitOn c s) \<Longrightarrow> c \<notin> set seg"
proof (induction s arbitrary: seg)
  case Nil
  then show ?case by simp
next
  case (Cons x xs)
  obtain w ws where w: "splitOn c xs = w # ws"
    using splitOn_not_Nil [of c xs] by (cases "splitOn c xs") auto
  show ?case
  proof (cases "x = c")
    case True
    then show ?thesis using Cons by auto
  next
    case False
    then have "seg = x # w \<or> seg \<in> set ws" using Cons.prems w by simp
    then show ?thesis
    proof
      assume "seg = x # w"
      moreover have "c \<notin> set w" using Cons.IH [of w] w by simp
      ultimately show ?thesis using False by simp
    next
      assume "seg \<in> set ws"
      then show ?thesis using Cons.IH [of seg] w by simp
    qed
  qed
qed

lemma segmentsOf_Nil: "segmentsOf [] = []"
  by (simp add: segmentsOf_def)

lemma segmentsOf_slash: "segmentsOf (xs @ CHR ''/'' # ys) = segmentsOf xs @ segmentsOf ys"
  by (simp add: segmentsOf_def splitOn_append)

lemma segmentsOf_joinWith:
  "segmentsOf (joinWith ''/'' args) = concat (map segmentsOf args)"
proof (induction "''/''" args rule: joinWith.induct)
  case 1
  show ?case by (simp add: segmentsOf_Nil)
next
  case (2 x)
  show ?case by simp
next
  case (3 x y ys)
  have "segmentsOf (x @ CHR ''/'' # joinWith ''/'' (y # ys)) =
          segmentsOf x @ segmentsOf (joinWith ''/'' (y # ys))"
    by (rule segmentsOf_slash)
  then show ?case using 3 by simp
qed

lemma segmentsOf_clean:
  "seg \<in> set (segmentsOf s) \<Longrightarrow> seg \<noteq> [] \<and> seg \<noteq> ''.'' \<and> CHR ''/'' \<notin> set seg"
  using splitOn_segments_free [of seg "CHR ''/''" s] by (auto simp add: segmentsOf_def)

lemma segmentsOf_single:
  "seg \<noteq> [] \<Longrightarrow> seg \<noteq> ''.'' \<Longrightarrow> CHR ''/'' \<notin> set seg \<Longrightarrow> segmentsOf seg = [seg]"
  by (simp add: segmentsOf_def splitOn_no_separator)

lemma segmentsOf_roundtrip:
  "segmentsOf (joinWith ''/'' (segmentsOf s)) = segmentsOf s"
proof -
  have "concat (map segmentsOf segs) = segs"
    if "\<And>seg. seg \<in> set segs \<Longrightarrow> seg \<noteq> [] \<and> seg \<noteq> ''.'' \<and> CHR ''/'' \<notin> set seg" for segs
    using that by (induction segs) (simp_all add: segmentsOf_single)
  then show ?thesis
    using segmentsOf_clean [of _ s] by (simp add: segmentsOf_joinWith)
qed

lemma normalizeSegments_no_dotdot:
  "''..'' \<notin> set segs \<Longrightarrow>
   normalizeSegments allowAboveRoot stack segs =
     rev stack @ filter (\<lambda>seg. seg \<noteq> [] \<and> seg \<noteq> ''.'') segs"
  by (induction segs arbitrary: stack) auto

lemma dotdot_segment:
  "(''..'' \<in> set (splitOn CHR ''/'' s)) = (''..'' \<in> set (segmentsOf s))"
  by (auto simp add: segmentsOf_def)

lemma joinWith_Nil_iff:
  "(\<And>seg. seg \<in> set segs \<Longrightarrow> seg \<noteq> []) \<Longrightarrow> (joinWith sep segs = []) = (segs = [])"
  by (induction sep segs rule: joinWith.induct) auto

lemma joinWith_segments_Nil: "joinWith ''/'' (segmentsOf p) = [] \<Longrightarrow> segmentsOf p = []"
proof -
  have "\<And>seg. seg \<in> set (segmentsOf p) \<Longrightarrow> seg \<noteq> []"
    using segmentsOf_clean by blast
  from joinWith_Nil_iff [OF this] show "joinWith ''/'' (segmentsOf p) = [] \<Longrightarrow> segmentsOf p = []"
    by simp
qed

lemma segmentsOf_leading_slash: "segmentsOf (CHR ''/'' # xs) = segmentsOf xs"
  using segmentsOf_slash [of "[]" xs] by (simp add: segmentsOf_Nil)

lemma segmentsOf_trailing_slash: "segmentsOf (xs @ ''/'') = segmentsOf xs"
  using segmentsOf_slash [of xs "[]"] by (simp add: segmentsOf_Nil)

lemma segmentsOf_special: "segmentsOf ''/'' = []" "segmentsOf ''./'' = []" "segmentsOf ''.'' = []"
  by (simp_all add: segmentsOf_def)

lemma normalize_no_dotdot:
  assumes "''..'' \<notin> set (segmentsOf p)" and "p \<noteq> []"
  shows "normalize p =
     (if joinWith ''/'' (segmentsOf p) = []
      then (if hd p = CHR ''/'' then ''/'' else if last p = CHR ''/'' then ''./'' else ''.'')
      else (if hd p = CHR ''/'' then ''/'' else []) @ joinWith ''/'' (segmentsOf p) @
           (if last p = CHR ''/'' then ''/'' else []))"
proof -
  have "''..'' \<notin> set (splitOn CHR ''/'' p)"
    using assms(1) by (simp add: dotdot_segment)
  then have ns: "normalizeSegments b [] (splitOn CHR ''/'' p) = segmentsOf p" for b
    using normalizeSegments_no_dotdot [of "splitOn CHR ''/'' p" b "[]"]
    by (simp add: segmentsOf_def)
  show ?thesis
    unfolding normalize_def Let_def ns using assms(2) by simp
qed

lemma segmentsOf_normalize:
  assumes "''..'' \<notin> set (segmentsOf p)"
  shows "segmentsOf (normalize p) = segmentsOf p"
proof (cases "p = []")
  case True
  then show ?thesis by (simp add: normalize_def segmentsOf_def)
next
  case False
  let ?res = "joinWith ''/'' (segmentsOf p)"
  note n = normalize_no_dotdot [OF assms False]
  show ?thesis
  proof (cases "?res = []")
    case True
    then have "segmentsOf p = []" by (rule joinWith_segments_Nil)
    moreover have "segmentsOf (normalize p) = []"
      using True n segmentsOf_special by simp
    ultimately show ?thesis by simp
  next
    case nonempty: False
    have "normalize p = (if hd p = CHR ''/'' then ''/'' else []) @ ?res @
                      (if last p = CHR ''/'' then ''/'' else [])"
      using n nonempty by simp
    moreover have "segmentsOf ((if hd p = CHR ''/'' then ''/'' else []) @ ?res @
                      (if last p = CHR ''/'' then ''/'' else [])) = segmentsOf ?res"
      using segmentsOf_leading_slash [of "?res"] segmentsOf_leading_slash [of "?res @ ''/''"] segmentsOf_trailing_slash [of "?res"] by simp
    ultimately show ?thesis by (simp only: segmentsOf_roundtrip)
  qed
qed

lemma segmentsOf_filter_nonempty:
  "concat (map segmentsOf (filter (\<lambda>a. a \<noteq> []) args)) = concat (map segmentsOf args)"
  by (induction args) (simp_all add: segmentsOf_Nil)

lemma segmentsOf_pathJoin:
  assumes "''..'' \<notin> set (concat (map segmentsOf args))"
  shows "segmentsOf (pathJoin args) = concat (map segmentsOf args)"
proof (cases "filter (\<lambda>a. a \<noteq> []) args = []")
  case True
  have "concat (map segmentsOf args) = []"
    using segmentsOf_filter_nonempty [of args] True by simp
  moreover have "pathJoin args = ''.''" using True by (simp add: pathJoin_def)
  ultimately show ?thesis using segmentsOf_special by simp
next
  case False
  let ?joined = "joinWith ''/'' (filter (\<lambda>a. a \<noteq> []) args)"
  have j: "segmentsOf ?joined = concat (map segmentsOf args)"
    by (simp only: segmentsOf_joinWith segmentsOf_filter_nonempty)
  then have "''..'' \<notin> set (segmentsOf ?joined)" using assms by simp
  then have "segmentsOf (normalize ?joined) = segmentsOf ?joined"
    by (rule segmentsOf_normalize)
  moreover have "pathJoin args = normalize ?joined"
    using False by (simp add: pathJoin_def Let_def)
  ultimately show ?thesis using j by simp
qed

lemma joinWith_hd_last:
  assumes "parts \<noteq> []" and "\<And>p. p \<in> set parts \<Longrightarrow> p \<noteq> []"
  shows "joinWith sep parts \<noteq> [] \<and> hd (joinWith sep parts) = hd (concat parts)
         \<and> last (joinWith sep parts) = last (concat parts)"
  using assms
proof (induction sep parts rule: joinWith.induct)
  case (1 sep)
  then show ?case by simp
next
  case (2 sep x)
  then show ?case by simp
next
  case (3 sep x y ys)
  have x: "x \<noteq> []" and y: "y \<noteq> []" using 3(3) by simp_all
  have ih: "joinWith sep (y # ys) \<noteq> [] \<and> hd (joinWith sep (y # ys)) = hd (concat (y # ys))
         \<and> last (joinWith sep (y # ys)) = last (concat (y # ys))"
    using 3(1) 3(3) by simp
  have c: "concat (y # ys) \<noteq> []" using y by simp
  let ?r = "joinWith sep (y # ys)"
  let ?c = "concat (y # ys)"
  have eq: "joinWith sep (x # y # ys) = x @ sep @ ?r" by simp
  have ceq: "concat (x # y # ys) = x @ ?c" by simp
  have "x @ sep @ ?r \<noteq> []" using x by simp
  moreover have "hd (x @ sep @ ?r) = hd (x @ ?c)" using x by (simp only: hd_append if_False)
  moreover have "last (x @ sep @ ?r) = last ?r" using ih by (simp only: last_append append_is_Nil_conv simp_thms if_False)
  moreover have "last (x @ ?c) = last ?c" using c by (simp only: last_append if_False)
  ultimately show ?case unfolding eq ceq using ih by (simp only: simp_thms)
qed

lemma concat_filter_nonempty: "concat (filter (\<lambda>a. a \<noteq> []) args) = concat args"
  by (induction args) simp_all

lemma pathJoin_no_dotdot:
  assumes "''..'' \<notin> set (concat (map segmentsOf args))"
  shows "pathJoin args =
           pathOfSegments (startsWithSlash (concat args)) (concat (map segmentsOf args))
             (endsWith (concat args) ''/'')"
proof (cases "filter (\<lambda>a. a \<noteq> []) args = []")
  case True
  have segs: "concat (map segmentsOf args) = []"
    using segmentsOf_filter_nonempty [of args] True by simp
  have "concat args = []" using concat_filter_nonempty [of args] True by simp
  then have "pathOfSegments (startsWithSlash (concat args)) (concat (map segmentsOf args))
             (endsWith (concat args) ''/'') = ''.''"
    using segs by (simp add: pathOfSegments_def startsWithSlash_def endsWith_slash)
  moreover have "pathJoin args = ''.''" using True by (simp add: pathJoin_def)
  ultimately show ?thesis by simp
next
  case False
  let ?parts = "filter (\<lambda>a. a \<noteq> []) args"
  let ?joined = "joinWith ''/'' ?parts"
  let ?segs = "concat (map segmentsOf args)"
  have j: "segmentsOf ?joined = ?segs"
    by (simp only: segmentsOf_joinWith segmentsOf_filter_nonempty)
  have clean: "''..'' \<notin> set (segmentsOf ?joined)" using assms j by simp
  have "\<And>p. p \<in> set ?parts \<Longrightarrow> p \<noteq> []" by simp
  note jl = joinWith_hd_last [OF False this, of "''/''"]
  have cc: "concat ?parts = concat args" by (rule concat_filter_nonempty)
  have ne: "?joined \<noteq> []" using jl by blast
  have h: "hd ?joined = hd (concat args)" using jl cc by simp
  have l: "last ?joined = last (concat args)" using jl cc by simp
  have "concat ?parts \<noteq> []" using False by (induction args) auto
  then have cne: "concat args \<noteq> []" using cc by simp
  have pj: "pathJoin args = normalize ?joined"
    using False by (simp add: pathJoin_def Let_def)
  have "seg \<noteq> []" if "seg \<in> set ?segs" for seg
    using that segmentsOf_clean by auto
  then have nil: "(joinWith ''/'' ?segs = []) = (?segs = [])"
    by (rule joinWith_Nil_iff)
  show ?thesis
    unfolding pj normalize_no_dotdot [OF clean ne] j nil h l
    using cne by (simp add: pathOfSegments_def startsWithSlash_def endsWith_slash)
qed

lemma segmentsOf_kind:
  "segmentsOf ''v1'' = [''v1'']" "segmentsOf ''metadata'' = [''metadata'']"
  "segmentsOf ''data'' = [''data'']"
  by (simp_all add: segmentsOf_def)

lemma ctxPathJoin_no_dotdot:
  assumes "''..'' \<notin> set (segmentsOf engine @ segmentsOf path)"
    and "kind = ''metadata'' \<or> kind = ''data''"
  shows "ctxPathJoin engine [kind, path] = specUrl engine kind path"
proof -
  have k: "segmentsOf kind = [kind]" using assms(2) segmentsOf_kind by auto
  have kne: "kind \<noteq> []" and kl: "last kind = CHR ''a''" using assms(2) by auto
  have clean: "''..'' \<notin> set (concat (map segmentsOf [''v1'', engine, kind, path]))"
    using assms by (auto simp add: segmentsOf_kind k)
  have s: "\<not> startsWithSlash (concat [''v1'', engine, kind, path])"
    by (simp add: startsWithSlash_def)
  have e: "endsWith (concat [''v1'', engine, kind, path]) ''/'' = endsWith path ''/''"
    using kne kl by (cases "path = []") (simp_all add: endsWith_slash)
  have segs: "concat (map segmentsOf [''v1'', engine, kind, path]) =
              ''v1'' # segmentsOf engine @ kind # segmentsOf path"
    by (simp add: segmentsOf_kind k)
  show ?thesis
    unfolding ctxPathJoin_def version_v1_def append_Cons append_Nil
      pathJoin_no_dotdot [OF clean] segs e specUrl_def
    using s by (simp add: pathOfSegments_def)
qed

lemma commandPath_no_dotdot:
  assumes "''..'' \<notin> set (segmentsOf engine @ segmentsOf path)"
  shows "pathJoin [engine, path] = specCommandPath engine path"
proof -
  have clean: "''..'' \<notin> set (concat (map segmentsOf [engine, path]))"
    using assms by simp
  show ?thesis
    unfolding pathJoin_no_dotdot [OF clean] specCommandPath_def by simp
qed

subsection \<open>Secrets manager: list\<close>

lemma reducePartition_foldl:
  "foldl (partitionReducer p) acc xs =
     (fst acc @ filter p xs, snd acc @ filter (\<lambda>x. \<not> p x) xs)"
  by (induction xs arbitrary: acc) (simp_all add: partitionReducer_def)

lemma reducePartition_filter:
  "reducePartition p xs = (filter p xs, filter (\<lambda>x. \<not> p x) xs)"
  by (simp add: reducePartition_def reducePartition_foldl)

text \<open>
  C4. For every engine and path, \<open>list\<close> sends one GET request with the query parameter
  \<open>list=true\<close> and no body. When the request fails the error is passed on; when it
  answers with keys, the nodes are the keys that end with a slash and the leafs are the
  other keys, both in the order of the answer, and nodes and leafs together hold every
  key exactly as often as the answer does. When no segment of the engine and of the
  path is \<open>..\<close>, the request goes to \<open>v1\<close>, the segments of the engine, \<open>metadata\<close>
  and the segments of the path, joined by slashes, with a slash at the end when the path
  ends with one.
\<close>

theorem list_partitions_keys:
  "secretsManagerClient_list axiosInstance engine path =
     (case axiosInstance (listRequest engine path) of
        Inl e \<Rightarrow> Inl e
      | Inr keys \<Rightarrow>
          Inr \<lparr> nodes = filter (\<lambda>key. key \<noteq> [] \<and> last key = CHR ''/'') keys,
                leafs = filter (\<lambda>key. \<not> (key \<noteq> [] \<and> last key = CHR ''/'')) keys \<rparr>)
   \<and> (case secretsManagerClient_list axiosInstance engine path of
        Inl e \<Rightarrow> axiosInstance (listRequest engine path) = Inl e
      | Inr r \<Rightarrow>
          (case axiosInstance (listRequest engine path) of
             Inl e \<Rightarrow> False
           | Inr keys \<Rightarrow> mset (nodes r) + mset (leafs r) = mset keys))
   \<and> http_method (listRequest engine path) = GET
   \<and> http_params (listRequest engine path) = [(''list'', ''true'')]
   \<and> http_data (listRequest engine path) = None
   \<and> (''..'' \<notin> set (segmentsOf engine @ segmentsOf path) \<longrightarrow>
        http_url (listRequest engine path) =
          joinWith ''/'' (''v1'' # segmentsOf engine @ ''metadata'' # segmentsOf path) @
          (if path \<noteq> [] \<and> last path = CHR ''/'' then ''/'' else []))"
proof -
  have url: "http_url (listRequest engine path) =
          joinWith ''/'' (''v1'' # segmentsOf engine @ ''metadata'' # segmentsOf path) @
          (if path \<noteq> [] \<and> last path = CHR ''/'' then ''/'' else [])"
    if "''..'' \<notin> set (segmentsOf engine @ segmentsOf path)"
    using ctxPathJoin_no_dotdot [OF that, of "''metadata''"]
    by (simp add: listRequest_def specUrl_def endsWith_slash)
  have rest: "secretsManagerClient_list axiosInstance engine path =
     (case axiosInstance (listRequest engine path) of
        Inl e \<Rightarrow> Inl e
      | Inr keys \<Rightarrow>
          Inr \<lparr> nodes = filter (\<lambda>key. key \<noteq> [] \<and> last key = CHR ''/'') keys,
                leafs = filter (\<lambda>key. \<not> (key \<noteq> [] \<and> last key = CHR ''/'')) keys \<rparr>)
   \<and> (case secretsManagerClient_list axiosInstance engine path of
        Inl e \<Rightarrow> axiosInstance (listRequest engine path) = Inl e
      | Inr r \<Rightarrow>
          (case axiosInstance (listRequest engine path) of
             Inl e \<Rightarrow> False
           | Inr keys \<Rightarrow> mset (nodes r) + mset (leafs r) = mset keys))"
    by (simp add: secretsManagerClient_list_def reducePartition_filter endsWith_slash
          split: sum.splits)
  have fields: "http_method (listRequest engine path) = GET
   \<and> http_params (listRequest engine path) = [(''list'', ''true'')]
   \<and> http_data (listRequest engine path) = None"
    by (simp add: listRequest_def)
  show ?thesis using url rest fields by blast
qed

text \<open>
  The theorem for the engine \<open>kv\<close> and the path \<open>team/\<close>, with a backend that answers
  with two leafs and the same node twice.
\<close>

theorem list_partitions_keys_witness:
  "''..'' \<notin> set (segmentsOf ''kv'' @ segmentsOf ''team/'')
   \<and> http_url (listRequest ''kv'' ''team/'') = ''v1/kv/metadata/team/''
   \<and> secretsManagerClient_list exampleBackend ''kv'' ''team/'' =
       Inr \<lparr> nodes = [''apps/'', ''apps/''], leafs = [''db'', ''mail''] \<rparr>"
proof -
  have s: "segmentsOf ''kv'' = [''kv'']" "segmentsOf ''team/'' = [''team'']"
    by (simp_all add: segmentsOf_def)
  have clean: "''..'' \<notin> set (segmentsOf ''kv'' @ segmentsOf ''team/'')"
    by (simp add: s)
  note inst = list_partitions_keys
                [where engine = "''kv''" and path = "''team/''"
                   and axiosInstance = exampleBackend]
  from inst clean have url: "http_url (listRequest ''kv'' ''team/'') =
          joinWith ''/'' (''v1'' # segmentsOf ''kv'' @ ''metadata'' # segmentsOf ''team/'') @
          (if ''team/'' \<noteq> [] \<and> last ''team/'' = CHR ''/'' then ''/'' else [])"
    by blast
  have u: "http_url (listRequest ''kv'' ''team/'') = ''v1/kv/metadata/team/''"
    unfolding url s by simp
  from inst have "secretsManagerClient_list exampleBackend ''kv'' ''team/'' =
     (case exampleBackend (listRequest ''kv'' ''team/'') of
        Inl e \<Rightarrow> Inl e
      | Inr keys \<Rightarrow>
          Inr \<lparr> nodes = filter (\<lambda>key. key \<noteq> [] \<and> last key = CHR ''/'') keys,
                leafs = filter (\<lambda>key. \<not> (key \<noteq> [] \<and> last key = CHR ''/'')) keys \<rparr>)"
    by blast
  moreover have "exampleBackend (listRequest ''kv'' ''team/'') =
                   Inr [''db'', ''apps/'', ''mail'', ''apps/'']"
    using u by (simp add: exampleBackend_def listRequest_def)
  ultimately have "secretsManagerClient_list exampleBackend ''kv'' ''team/'' =
       Inr \<lparr> nodes = [''apps/'', ''apps/''], leafs = [''db'', ''mail''] \<rparr>"
    by simp
  then show ?thesis using clean u by simp
qed

text \<open>
  C4 as stated fails for a path that climbs with \<open>..\<close>: for the engine \<open>kv\<close> and the path
  \<open>../../x\<close> the request goes to \<open>v1/x\<close>, which is not under \<open>v1/kv/metadata\<close>.
\<close>

theorem list_request_leaves_engine_on_dotdot:
  "http_url (listRequest ''kv'' ''../../x'') = ''v1/x''"
  by (simp add: listRequest_def ctxPathJoin_def version_v1_def pathJoin_def normalize_def
        Let_def)

subsection \<open>Command-line translator\<close>

lemma putEntry_spec: "putEntry jsonStringify entry = specPutEntry jsonStringify entry"
  by (cases "snd entry")
     (simp_all add: putEntry_def specPutEntry_def specValue_def escapeDoubleQuotes_def)

text \<open>
  C6. For every engine and path no segment of which is \<open>..\<close>: the command of each of
  the four operations is \<open>vault kv\<close>, the operation and the path \<open>engine/path\<close> of the
  specification; the put command goes on, after a space, a backslash and a line break
  each, with one entry \<open>key=value\<close> of the specification per entry of the secret; the
  request of list goes to \<open>v1/engine/metadata/path\<close> and the requests of get, put and
  delete go to \<open>v1/engine/data/path\<close>. The segments of the command's path are those of
  the engine followed by those of the path, and the segments of the request's address
  are \<open>v1\<close>, those of the engine, \<open>metadata\<close> or \<open>data\<close>, and those of the path: both
  address the same path under the engine.
\<close>

theorem buildCmd_matches_http_adapter:
  assumes "''..'' \<notin> set (segmentsOf engine @ segmentsOf path)"
  shows "buildCmd_list engine path = ''vault kv list '' @ specCommandPath engine path
   \<and> buildCmd_get engine path = ''vault kv get '' @ specCommandPath engine path
   \<and> buildCmd_delete engine path = ''vault kv delete '' @ specCommandPath engine path
   \<and> buildCmd_put jsonStringify engine path secret =
       joinWith [CHR '' '', CHR 0x5C, CHR 0x0A]
         ((''vault kv put '' @ specCommandPath engine path) #
          map (specPutEntry jsonStringify) secret)
   \<and> http_url (listRequest engine path) = specUrl engine ''metadata'' path
   \<and> http_url (getRequest engine path) = specUrl engine ''data'' path
   \<and> http_url (putRequest engine path secret) = specUrl engine ''data'' path
   \<and> http_url (deleteRequest engine path) = specUrl engine ''data'' path
   \<and> segmentsOf (specCommandPath engine path) = segmentsOf engine @ segmentsOf path
   \<and> segmentsOf (specUrl engine ''metadata'' path) =
       ''v1'' # segmentsOf engine @ ''metadata'' # segmentsOf path
   \<and> segmentsOf (specUrl engine ''data'' path) =
       ''v1'' # segmentsOf engine @ ''data'' # segmentsOf path"
proof -
  note c = commandPath_no_dotdot [OF assms]
  have cmds: "buildCmd_list engine path = ''vault kv list '' @ specCommandPath engine path"
    "buildCmd_get engine path = ''vault kv get '' @ specCommandPath engine path"
    "buildCmd_delete engine path = ''vault kv delete '' @ specCommandPath engine path"
    by (simp_all add: buildCmd_list_def buildCmd_get_def buildCmd_delete_def c)
  have "map (putEntry jsonStringify) secret = map (specPutEntry jsonStringify) secret"
    by (simp add: putEntry_spec)
  then have put: "buildCmd_put jsonStringify engine path secret =
       joinWith [CHR '' '', CHR 0x5C, CHR 0x0A]
         ((''vault kv put '' @ specCommandPath engine path) #
          map (specPutEntry jsonStringify) secret)"
    unfolding buildCmd_put_def c by (simp only:)
  have md: "ctxPathJoin engine [''metadata'', path] = specUrl engine ''metadata'' path"
    by (rule ctxPathJoin_no_dotdot [OF assms]) simp
  have dt: "ctxPathJoin engine [''data'', path] = specUrl engine ''data'' path"
    by (rule ctxPathJoin_no_dotdot [OF assms]) simp
  have urls: "http_url (listRequest engine path) = specUrl engine ''metadata'' path"
    "http_url (getRequest engine path) = specUrl engine ''data'' path"
    "http_url (putRequest engine path secret) = specUrl engine ''data'' path"
    "http_url (deleteRequest engine path) = specUrl engine ''data'' path"
    by (simp_all add: listRequest_def getRequest_def putRequest_def deleteRequest_def md dt)
  have a: "''..'' \<notin> set (concat (map segmentsOf [engine, path]))"
    using assms by simp
  have b: "''..'' \<notin> set (concat (map segmentsOf [''v1'', engine, ''metadata'', path]))"
    using assms by (simp add: segmentsOf_kind)
  have d: "''..'' \<notin> set (concat (map segmentsOf [''v1'', engine, ''data'', path]))"
    using assms by (simp add: segmentsOf_kind)
  have segs: "segmentsOf (specCommandPath engine path) = segmentsOf engine @ segmentsOf path"
    "segmentsOf (specUrl engine ''metadata'' path) =
       ''v1'' # segmentsOf engine @ ''metadata'' # segmentsOf path"
    "segmentsOf (specUrl engine ''data'' path) =
       ''v1'' # segmentsOf engine @ ''data'' # segmentsOf path"
    using segmentsOf_pathJoin [OF a] segmentsOf_pathJoin [OF b] segmentsOf_pathJoin [OF d]
    unfolding c md [symmetric] dt [symmetric] ctxPathJoin_def version_v1_def
    by (simp_all add: segmentsOf_kind)
  show ?thesis
    using cmds put urls segs by simp
qed

text \<open>
  The theorem for the engine \<open>kv\<close>, the path \<open>team/db\<close> and the example secret.
\<close>

theorem buildCmd_matches_http_adapter_witness:
  "''..'' \<notin> set (segmentsOf ''kv'' @ segmentsOf ''team/db'')
   \<and> buildCmd_list ''kv'' ''team/db'' = ''vault kv list kv/team/db''
   \<and> buildCmd_get ''kv'' ''team/db'' = ''vault kv get kv/team/db''
   \<and> buildCmd_delete ''kv'' ''team/db'' = ''vault kv delete kv/team/db''
   \<and> buildCmd_put exampleJsonStringify ''kv'' ''team/db'' exampleSecret =
       joinWith [CHR '' '', CHR 0x5C, CHR 0x0A]
         [''vault kv put kv/team/db'',
          ''user='' @ [CHR 0x22] @ ''a'' @ [CHR 0x5C, CHR 0x22] @ ''b'' @ [CHR 0x22],
          ''port=5432'',
          ''big=1e+21'',
          ''tls=true'',
          ''owner=-<<EOF'' @ [CHR 0x0A] @ ''heredoc > null'' @ [CHR 0x0A] @ ''heredoc> EOF'']
   \<and> http_url (listRequest ''kv'' ''team/db'') = ''v1/kv/metadata/team/db''
   \<and> http_url (getRequest ''kv'' ''team/db'') = ''v1/kv/data/team/db''
   \<and> http_url (putRequest ''kv'' ''team/db'' exampleSecret) = ''v1/kv/data/team/db''
   \<and> http_url (deleteRequest ''kv'' ''team/db'') = ''v1/kv/data/team/db''"
proof -
  have s: "segmentsOf ''kv'' = [''kv'']" "segmentsOf ''team/db'' = [''team'', ''db'']"
    by (simp_all add: segmentsOf_def)
  have clean: "''..'' \<notin> set (segmentsOf ''kv'' @ segmentsOf ''team/db'')"
    by (simp add: s)
  have p: "specCommandPath ''kv'' ''team/db'' = ''kv/team/db''"
    by (simp add: specCommandPath_def pathOfSegments_def startsWithSlash_def endsWith_def s)
  have u: "specUrl ''kv'' ''metadata'' ''team/db'' = ''v1/kv/metadata/team/db''"
    "specUrl ''kv'' ''data'' ''team/db'' = ''v1/kv/data/team/db''"
    by (simp_all add: specUrl_def endsWith_def s)
  have e: "map (specPutEntry exampleJsonStringify) exampleSecret =
         [''user='' @ [CHR 0x22] @ ''a'' @ [CHR 0x5C, CHR 0x22] @ ''b'' @ [CHR 0x22],
          ''port=5432'',
          ''big=1e+21'',
          ''tls=true'',
          ''owner=-<<EOF'' @ [CHR 0x0A] @ ''heredoc > null'' @ [CHR 0x0A] @ ''heredoc> EOF'']"
    by (simp add: exampleSecret_def specPutEntry_def specValue_def exampleJsonStringify_def)
  note inst = buildCmd_matches_http_adapter
                [OF clean, where secret = exampleSecret
                   and jsonStringify = exampleJsonStringify]
  show ?thesis
    using clean inst unfolding p u e by (simp only: append_Cons append_Nil simp_thms)
qed

text \<open>
  C6 as stated fails for a path that climbs with \<open>..\<close>: for the engine \<open>kv\<close> and the path
  \<open>../x\<close> the command reads the path \<open>x\<close>, outside the engine, where the request goes
  to \<open>v1/kv/x\<close>.
\<close>

theorem buildCmd_get_not_under_engine_on_dotdot:
  "buildCmd_get ''kv'' ''../x'' = ''vault kv get x''
   \<and> http_url (getRequest ''kv'' ''../x'') = ''v1/kv/x''"
  by (simp add: buildCmd_get_def getRequest_def ctxPathJoin_def version_v1_def pathJoin_def
        normalize_def Let_def)

subsection \<open>Vault token\<close>



















subsection \<open>usecases index\<close>

text \<open>
  C7. The \<open>usecases\<close> object has exactly one property per imported module, named as
  the import and holding that module's namespace object unchanged, in the order of
  the imports; the 18 names and the 18 module specifiers are pairwise different.
  Each property is a function of its own module alone.
\<close>

theorem usecases_are_the_imported_modules:
  "usecases resolve = map (\<lambda>(name, specifier). (name, resolve specifier)) importedModules
   \<and> map fst (usecases resolve) = map fst importedModules
   \<and> distinct (map fst importedModules)
   \<and> distinct (map snd importedModules)
   \<and> length (usecases resolve) = 18"
  by (simp add: usecases_def importedModules_def)

subsection \<open>getChartInfos\<close>

lemma find_version_None:
  "(find (\<lambda>v. version v = p) vs = None) = (p \<notin> set (map version vs))"
  by (induction vs) auto

lemma find_version_Some:
  "p \<in> set (map version vs) \<Longrightarrow> \<exists>v. find (\<lambda>v. version v = p) vs = Some v"
  by (induction vs) auto

lemma find_Some_member: "find P xs = Some x \<Longrightarrow> x \<in> set xs \<and> P x"
  by (induction xs) (auto split: if_splits)

text \<open>
  Whatever \<open>Chart.getDefaultVersion\<close> gives: when \<open>getChartInfos\<close> returns, the
  resolved version is one of the available versions. (When the default version is
  not a version of the chart and is the resolved one, \<open>.iconUrl\<close> throws.)
\<close>

lemma getChartInfos_returned_version_available:
  assumes "getChartInfos getDefaultVersion catalogs chartsByCatalogId catalogId chartName pinned
             = Inr r"
  shows "chartVersion r \<in> set (availableChartVersions r)"
proof -
  obtain cat where cat: "find (\<lambda>c. catalog_id c = catalogId) catalogs = Some cat"
    using assms by (auto simp add: getChartInfos_def split: option.splits)
  obtain charts where charts: "map_of chartsByCatalogId catalogId = Some charts"
    using assms cat by (auto simp add: getChartInfos_def split: option.splits)
  obtain ch where ch: "find (\<lambda>c. chart_name c = chartName) charts = Some ch"
    using assms cat charts by (auto simp add: getChartInfos_def split: option.splits)
  obtain rs ms where
    rm: "resolveChartVersion ch cat chartName (getDefaultVersion ch) pinned = (rs, ms)"
    by (cases "resolveChartVersion ch cat chartName (getDefaultVersion ch) pinned")
  obtain v where v: "find (\<lambda>v. version v = rs) (versions ch) = Some v"
    using assms cat charts ch rm
    by (auto simp add: getChartInfos_def Let_def split: option.splits)
  have r: "chartVersion r = rs" "availableChartVersions r = map version (versions ch)"
    using assms cat charts ch rm v by (auto simp add: getChartInfos_def Let_def)
  have "v \<in> set (versions ch) \<and> version v = rs"
    using find_Some_member [OF v] .
  then have "rs \<in> version ` set (versions ch)" by (metis imageI)
  then show ?thesis using r by simp
qed

text \<open>
  C9. When the catalog and the chart are found and the default version that
  \<open>Chart.getDefaultVersion\<close> gives is one of the chart's versions, \<open>getChartInfos\<close>
  returns, and its \<open>chartVersion\<close> is the default version when no version is pinned or
  the pinned one is not among the chart's versions, and the pinned version otherwise;
  in every case it is one of the chart's versions.
\<close>

theorem getChartInfos_resolves_to_available_version:
  assumes cat: "find (\<lambda>c. catalog_id c = catalogId) catalogs = Some cat"
    and charts: "map_of chartsByCatalogId catalogId = Some charts"
    and chart: "find (\<lambda>c. chart_name c = chartName) charts = Some ch"
    and dflt: "getDefaultVersion ch \<in> set (map version (versions ch))"
  shows "\<exists>r. getChartInfos getDefaultVersion catalogs chartsByCatalogId catalogId chartName pinned
               = Inr r
           \<and> chartVersion r =
               (case pinned of
                  None \<Rightarrow> getDefaultVersion ch
                | Some p \<Rightarrow> if p \<in> set (map version (versions ch)) then p
                            else getDefaultVersion ch)
           \<and> chartVersion r \<in> set (map version (versions ch))
           \<and> availableChartVersions r = map version (versions ch)"
proof -
  define resolved where "resolved =
     (case pinned of None \<Rightarrow> getDefaultVersion ch
      | Some p \<Rightarrow> if p \<in> set (map version (versions ch)) then p else getDefaultVersion ch)"
  have fst_eq:
    "fst (resolveChartVersion ch cat chartName (getDefaultVersion ch) pinned) = resolved"
    unfolding resolveChartVersion_def resolved_def
    by (simp add: find_version_None split: option.splits)
  have mem: "resolved \<in> set (map version (versions ch))"
    unfolding resolved_def using dflt by (simp split: option.splits)
  then obtain v where v: "find (\<lambda>v. version v = resolved) (versions ch) = Some v"
    using find_version_Some by blast
  obtain rs ms where
    rm: "resolveChartVersion ch cat chartName (getDefaultVersion ch) pinned = (rs, ms)"
    by (cases "resolveChartVersion ch cat chartName (getDefaultVersion ch) pinned")
  with fst_eq have rs: "rs = resolved" by simp
  show ?thesis
    unfolding getChartInfos_def
    using cat charts chart rm rs v mem
    by (simp add: Let_def) (simp add: resolved_def)
qed

text \<open>
  The theorem at a catalog with one chart of versions 2.0 and 1.0, default 2.0:
  the unknown pinned version 3.0 resolves to 2.0, the pinned 1.0 stays.
\<close>

theorem getChartInfos_resolves_witness:
  "(\<exists>r. getChartInfos (\<lambda>c. version (hd (versions c)))
          [\<lparr> catalog_id = ''ide'', catalog_name = ''IDE'', catalog_repositoryUrl = ''u'' \<rparr>]
          [(''ide'', [\<lparr> chart_name = ''jupyter'',
                        versions = [\<lparr> version = ''2.0'', iconUrl = None \<rparr>,
                                    \<lparr> version = ''1.0'', iconUrl = None \<rparr>] \<rparr>])]
          ''ide'' ''jupyter'' (Some ''3.0'') = Inr r
        \<and> chartVersion r = ''2.0'')
   \<and> (\<exists>r. getChartInfos (\<lambda>c. version (hd (versions c)))
          [\<lparr> catalog_id = ''ide'', catalog_name = ''IDE'', catalog_repositoryUrl = ''u'' \<rparr>]
          [(''ide'', [\<lparr> chart_name = ''jupyter'',
                        versions = [\<lparr> version = ''2.0'', iconUrl = None \<rparr>,
                                    \<lparr> version = ''1.0'', iconUrl = None \<rparr>] \<rparr>])]
          ''ide'' ''jupyter'' (Some ''1.0'') = Inr r
        \<and> chartVersion r = ''1.0'')"
proof -
  let ?cat = "\<lparr> catalog_id = ''ide'', catalog_name = ''IDE'', catalog_repositoryUrl = ''u'' \<rparr>"
  let ?ch = "\<lparr> chart_name = ''jupyter'',
               versions = [\<lparr> version = ''2.0'', iconUrl = None \<rparr>,
                           \<lparr> version = ''1.0'', iconUrl = None \<rparr>] \<rparr>"
  let ?gdv = "\<lambda>c. version (hd (versions c))"
  have a: "find (\<lambda>c. catalog_id c = ''ide'') [?cat] = Some ?cat" by simp
  have b: "map_of [(''ide'', [?ch])] ''ide'' = Some [?ch]" by simp
  have c: "find (\<lambda>c. chart_name c = ''jupyter'') [?ch] = Some ?ch" by simp
  have d: "?gdv ?ch \<in> set (map version (versions ?ch))" by simp
  note inst = getChartInfos_resolves_to_available_version
                [where getDefaultVersion = ?gdv and ch = ?ch, OF a b c d]
  show ?thesis
    using inst [of "Some ''3.0''"] inst [of "Some ''1.0''"]
    by auto
qed

subsection \<open>SearchBar\<close>

lemma notified_append: "notified (xs @ ys) = notified xs @ notified ys"
  by (induction xs rule: notified.induct) simp_all

lemma handle_notified:
  "notified (snd (handle c s)) = (case c of InputChange v \<Rightarrow> [v] | _ \<Rightarrow> [])"
  by (cases c)
     (simp_all add: onClearButtonClick_def onRootClick_def onIconClick_def onInputChange_def
        onInputKeyDown_def onClickAway_def Let_def)

lemma run_notified:
  "notified (snd (run cs s)) =
     concat (map (\<lambda>c. case c of InputChange v \<Rightarrow> [v] | _ \<Rightarrow> []) cs)"
proof (induction cs arbitrary: s)
  case Nil
  show ?case by simp
next
  case (Cons c cs)
  obtain s1 es1 where h: "handle c s = (s1, es1)" by (cases "handle c s")
  obtain s2 es2 where r: "run cs s1 = (s2, es2)" by (cases "run cs s1")
  have "notified es1 = (case c of InputChange v \<Rightarrow> [v] | _ \<Rightarrow> [])"
    using handle_notified [of c s] h by simp
  moreover have
    "notified es2 = concat (map (\<lambda>c. case c of InputChange v \<Rightarrow> [v] | _ \<Rightarrow> []) cs)"
    using Cons.IH [of s1] r by simp
  ultimately show ?case using h r by (simp add: notified_append)
qed

text \<open>
  C10. Over any run of handler calls from any state, the calls of \<open>onSearchChange\<close>
  are exactly the values of the input change events, in order: no other handler calls
  it. The clear button and the Escape key set \<open>search\<close> to the empty string without
  calling it. So after typing \<open>a\<close> and clearing (by the button or by Escape) the
  displayed text is empty while the last value given to the parent is \<open>a\<close>.
\<close>

theorem searchBar_onSearchChange_only_from_input_change:
  "notified (snd (run cs s)) =
     concat (map (\<lambda>c. case c of InputChange v \<Rightarrow> [v] | _ \<Rightarrow> []) cs)
   \<and> onClearButtonClick s = (s\<lparr> search := [] \<rparr>, if isActive s then [Focus] else [])
   \<and> search (fst (onInputKeyDown ''Escape'' s)) = []
   \<and> notified (snd (onInputKeyDown k s)) = []
   \<and> run [RootClick, InputChange ''a'', ClearButtonClick] initialSearchBarState =
       (\<lparr> isActive = True, search = [] \<rparr>, [OnSearchChange ''a'', Focus])
   \<and> run [RootClick, InputChange ''a'', InputKeyDown ''Escape''] initialSearchBarState =
       (\<lparr> isActive = True, search = [] \<rparr>, [OnSearchChange ''a''])"
proof -
  have a: "notified (snd (run cs s)) =
     concat (map (\<lambda>c. case c of InputChange v \<Rightarrow> [v] | _ \<Rightarrow> []) cs)"
    by (rule run_notified)
  have b: "onClearButtonClick s = (s\<lparr> search := [] \<rparr>, if isActive s then [Focus] else [])"
    by (simp add: onClearButtonClick_def)
  have c: "search (fst (onInputKeyDown ''Escape'' s)) = []"
    by (simp add: onInputKeyDown_def Let_def)
  have d: "notified (snd (onInputKeyDown k s)) = []"
    by (simp add: onInputKeyDown_def Let_def)
  have e: "run [RootClick, InputChange ''a'', ClearButtonClick] initialSearchBarState =
       (\<lparr> isActive = True, search = [] \<rparr>, [OnSearchChange ''a'', Focus])"
    by (simp add: initialSearchBarState_def onRootClick_def onInputChange_def
          onClearButtonClick_def)
  have f: "run [RootClick, InputChange ''a'', InputKeyDown ''Escape''] initialSearchBarState =
       (\<lparr> isActive = True, search = [] \<rparr>, [OnSearchChange ''a''])"
    by (simp add: initialSearchBarState_def onRootClick_def onInputChange_def
          onInputKeyDown_def Let_def)
  from a b c d e f show ?thesis by blast
qed

subsection \<open>getInitialFormFields\<close>

lemma leafSteps_append:
  "leafSteps regExp yamlStringify diff (xs @ ys) st =
     (case leafSteps regExp yamlStringify diff xs st of
        Inl e \<Rightarrow> Inl e
      | Inr st1 \<Rightarrow> leafSteps regExp yamlStringify diff ys st1)"
  by (induction xs arbitrary: st) (auto split: sum.splits)

lemma callee_leafSteps:
  "callee regExp yamlStringify diff props currentPath st =
     leafSteps regExp yamlStringify diff (leaves props currentPath) st"
proof (induction regExp yamlStringify diff props currentPath st rule: callee.induct)
  case (1 regExp yamlStringify diff currentPath st)
  show ?case by simp
next
  case (2 regExp yamlStringify diff key n rest currentPath st)
  let ?new = "currentPath @ [key]"
  let ?isObject = "d_type (node_description n) = ''object'' \<and> node_properties n \<noteq> None"
  let ?first = "if ?isObject
      then callee regExp yamlStringify diff (the (node_properties n)) ?new st
      else leafStep regExp yamlStringify diff ?new (node_description n) st"
  let ?here = "if ?isObject then leaves (the (node_properties n)) ?new
      else [(?new, node_description n)]"
  have unfold: "callee regExp yamlStringify diff ((key, n) # rest) currentPath st =
      (case ?first of Inl e \<Rightarrow> Inl e
       | Inr st1 \<Rightarrow> callee regExp yamlStringify diff rest currentPath st1)"
    by (simp add: Let_def)
  have first: "?first = leafSteps regExp yamlStringify diff ?here st"
  proof (cases ?isObject)
    case True
    then show ?thesis using "2.IH"(1) [OF refl True] by simp
  next
    case False
    have "?first = leafStep regExp yamlStringify diff ?new (node_description n) st"
      and "?here = [(?new, node_description n)]"
      by (simp_all only: False if_False)
    then show ?thesis by (simp split: sum.splits)
  qed
  have rest: "callee regExp yamlStringify diff rest currentPath st1 =
      leafSteps regExp yamlStringify diff (leaves rest currentPath) st1"
    if "?first = Inr st1" for st1
    using "2.IH"(2) [OF refl that] .
  have "leaves ((key, n) # rest) currentPath = ?here @ leaves rest currentPath"
    by simp
  then have "leafSteps regExp yamlStringify diff (leaves ((key, n) # rest) currentPath) st =
      (case ?first of Inl e \<Rightarrow> Inl e
       | Inr st1 \<Rightarrow> leafSteps regExp yamlStringify diff (leaves rest currentPath) st1)"
    using first by (simp only: leafSteps_append)
  also have "\<dots> = (case ?first of Inl e \<Rightarrow> Inl e
       | Inr st1 \<Rightarrow> callee regExp yamlStringify diff rest currentPath st1)"
    using rest by (cases ?first) simp_all
  finally show ?case using unfold by simp
qed

lemma commonOf_path: "ff_path (commonOf p d) = p"
  by (simp add: commonOf_def)

lemma formFieldOf_not_text:
  assumes "\<not> isTextKind (classifyLeaf d)"
  shows "\<exists>f. formFieldOf regExp yamlStringify diff p d sens = Inr (f, sens)
             \<and> kindOf f = classifyLeaf d \<and> formFieldCommonOf f = commonOf p d"
  using assms
  by (auto simp add: formFieldOf_def classifyLeaf_def classify_def isTextKind_def Let_def
        split: option.splits if_splits)

lemma formFieldOf_text:
  assumes "isTextKind (classifyLeaf d)"
  shows "formFieldOf regExp yamlStringify diff p d sens =
     (case securityWarning regExp diff (commonOf p d) d sens of
        Inl e \<Rightarrow> Inl e
      | Inr sens1 \<Rightarrow>
          Inr (FormFieldText (commonOf p d) (d_pattern d) (d_default d)
                 (if d_render d = Some ''password'' then ''password'' else ''text'')
                 (d_default d) (d_render d = Some ''textArea''), sens1))"
  using assms
  by (auto simp add: formFieldOf_def classifyLeaf_def classify_def isTextKind_def Let_def
        split: option.splits if_splits)

lemma kindOf_text:
  assumes "isTextKind (classifyLeaf d)"
  shows "kindOf (FormFieldText c pat v
                 (if d_render d = Some ''password'' then ''password'' else ''text'')
                 dv (d_render d = Some ''textArea'')) = classifyLeaf d"
  using assms
  by (auto simp add: classifyLeaf_def classify_def isTextKind_def split: if_splits)

lemma securityWarning_text:
  assumes "isTextKind (classifyLeaf d)"
  shows "securityWarning regExp diff (commonOf p d) d sens =
     (case sens of
        None \<Rightarrow> Inr None
      | Some flagged \<Rightarrow>
          (if patternCompiles regExp diff (p, d)
           then Inr (Some (flagged @ violation regExp diff (p, d)))
           else Inl SyntaxError))"
  using assms
  by (auto simp add: securityWarning_def patternCompiles_def testedPattern_def violation_def
        securityPatternOf_def commonOf_path split: option.splits)

lemma violation_not_text:
  "\<not> isTextKind (classifyLeaf d) \<Longrightarrow> violation regExp diff (p, d) = []"
  by (simp add: violation_def)

lemma patternCompiles_not_text:
  "\<not> isTextKind (classifyLeaf d) \<Longrightarrow> patternCompiles regExp diff (p, d)"
  by (simp add: patternCompiles_def testedPattern_def)

lemma formFieldOf_ok:
  assumes "sens = None \<or> patternCompiles regExp diff (p, d)"
  shows "\<exists>f. formFieldOf regExp yamlStringify diff p d sens =
               Inr (f, case sens of None \<Rightarrow> None
                       | Some flagged \<Rightarrow> Some (flagged @ violation regExp diff (p, d)))
             \<and> kindOf f = classifyLeaf d \<and> formFieldCommonOf f = commonOf p d"
proof (cases "isTextKind (classifyLeaf d)")
  case True
  show ?thesis
    using assms kindOf_text [OF True]
    by (cases sens) (simp_all add: formFieldOf_text [OF True] securityWarning_text [OF True])
next
  case False
  show ?thesis
    using formFieldOf_not_text [OF False, of regExp yamlStringify diff p sens]
    by (cases sens) (simp_all add: violation_not_text [OF False])
qed

lemma formFieldOf_fail:
  assumes "sens \<noteq> None" and "\<not> patternCompiles regExp diff (p, d)"
  shows "formFieldOf regExp yamlStringify diff p d sens = Inl SyntaxError"
proof -
  have isText: "isTextKind (classifyLeaf d)"
    using assms(2) patternCompiles_not_text by blast
  show ?thesis
    using assms
    by (cases sens) (simp_all add: formFieldOf_text [OF isText] securityWarning_text [OF isText])
qed

lemma leafStep_ok:
  assumes "ws_sensitiveConfigurations st = None \<or> patternCompiles regExp diff (p, d)"
  shows "\<exists>f. leafStep regExp yamlStringify diff p d st =
               Inr \<lparr> ws_formFields = ws_formFields st @ [f],
                     ws_infosAboutWhenFieldsShouldBeHidden =
                       ws_infosAboutWhenFieldsShouldBeHidden st @
                       [\<lparr> hi_path = p, hi_isHidden = isHiddenOf d \<rparr>],
                     ws_sensitiveConfigurations =
                       (case ws_sensitiveConfigurations st of
                          None \<Rightarrow> None
                        | Some flagged \<Rightarrow> Some (flagged @ violation regExp diff (p, d))),
                     ws_warnings = ws_warnings st @ renderWarning (commonOf p d) d \<rparr>
             \<and> kindOf f = classifyLeaf d \<and> formFieldCommonOf f = commonOf p d"
proof -
  obtain f where
    f: "formFieldOf regExp yamlStringify diff p d (ws_sensitiveConfigurations st) =
          Inr (f, case ws_sensitiveConfigurations st of None \<Rightarrow> None
                  | Some flagged \<Rightarrow> Some (flagged @ violation regExp diff (p, d)))"
    and k: "kindOf f = classifyLeaf d" and c: "formFieldCommonOf f = commonOf p d"
    using formFieldOf_ok [OF assms] by blast
  show ?thesis
    using f k c by (intro exI [of _ f]) (simp add: leafStep_def Let_def)
qed

lemma leafStep_fail:
  assumes "ws_sensitiveConfigurations st \<noteq> None" and "\<not> patternCompiles regExp diff (p, d)"
  shows "leafStep regExp yamlStringify diff p d st = Inl SyntaxError"
  using formFieldOf_fail [OF assms] by (simp add: leafStep_def Let_def)

lemma leafSteps_ok:
  assumes "ws_sensitiveConfigurations st = None \<or> list_all (patternCompiles regExp diff) ls"
  shows "\<exists>fs ws. leafSteps regExp yamlStringify diff ls st =
               Inr \<lparr> ws_formFields = ws_formFields st @ fs,
                     ws_infosAboutWhenFieldsShouldBeHidden =
                       ws_infosAboutWhenFieldsShouldBeHidden st @
                       map (\<lambda>l. \<lparr> hi_path = fst l, hi_isHidden = isHiddenOf (snd l) \<rparr>) ls,
                     ws_sensitiveConfigurations =
                       (case ws_sensitiveConfigurations st of
                          None \<Rightarrow> None
                        | Some flagged \<Rightarrow>
                            Some (flagged @ concat (map (violation regExp diff) ls))),
                     ws_warnings = ws \<rparr>
             \<and> map kindOf fs = map (\<lambda>l. classifyLeaf (snd l)) ls
             \<and> map formFieldCommonOf fs = map (\<lambda>l. commonOf (fst l) (snd l)) ls"
  using assms
proof (induction ls arbitrary: st)
  case Nil
  show ?case
    by (intro exI [of _ "[]"] exI [of _ "ws_warnings st"])
       (cases "ws_sensitiveConfigurations st", simp_all)
next
  case (Cons l ls)
  obtain p d where l: "l = (p, d)" by (cases l)
  have here: "ws_sensitiveConfigurations st = None \<or> patternCompiles regExp diff (p, d)"
    using Cons.prems l by auto
  obtain f st1 where
    step: "leafStep regExp yamlStringify diff p d st = Inr st1"
    and st1: "st1 = \<lparr> ws_formFields = ws_formFields st @ [f],
                     ws_infosAboutWhenFieldsShouldBeHidden =
                       ws_infosAboutWhenFieldsShouldBeHidden st @
                       [\<lparr> hi_path = p, hi_isHidden = isHiddenOf d \<rparr>],
                     ws_sensitiveConfigurations =
                       (case ws_sensitiveConfigurations st of
                          None \<Rightarrow> None
                        | Some flagged \<Rightarrow> Some (flagged @ violation regExp diff (p, d))),
                     ws_warnings = ws_warnings st @ renderWarning (commonOf p d) d \<rparr>"
    and k: "kindOf f = classifyLeaf d" and c: "formFieldCommonOf f = commonOf p d"
    using leafStep_ok [OF here, of yamlStringify] by blast
  have later: "ws_sensitiveConfigurations st1 = None \<or> list_all (patternCompiles regExp diff) ls"
    using Cons.prems st1 by (cases "ws_sensitiveConfigurations st") auto
  obtain fs ws where
    rest: "leafSteps regExp yamlStringify diff ls st1 =
               Inr \<lparr> ws_formFields = ws_formFields st1 @ fs,
                     ws_infosAboutWhenFieldsShouldBeHidden =
                       ws_infosAboutWhenFieldsShouldBeHidden st1 @
                       map (\<lambda>l. \<lparr> hi_path = fst l, hi_isHidden = isHiddenOf (snd l) \<rparr>) ls,
                     ws_sensitiveConfigurations =
                       (case ws_sensitiveConfigurations st1 of
                          None \<Rightarrow> None
                        | Some flagged \<Rightarrow>
                            Some (flagged @ concat (map (violation regExp diff) ls))),
                     ws_warnings = ws \<rparr>"
    and ks: "map kindOf fs = map (\<lambda>l. classifyLeaf (snd l)) ls"
    and cs: "map formFieldCommonOf fs = map (\<lambda>l. commonOf (fst l) (snd l)) ls"
    using Cons.IH [OF later] by blast
  show ?case
    using step rest ks cs k c l st1
    by (intro exI [of _ "f # fs"] exI [of _ ws])
       (cases "ws_sensitiveConfigurations st", simp_all)
qed

lemma leafSteps_fail:
  assumes "ws_sensitiveConfigurations st \<noteq> None"
    and "\<not> list_all (patternCompiles regExp diff) ls"
  shows "leafSteps regExp yamlStringify diff ls st = Inl SyntaxError"
  using assms
proof (induction ls arbitrary: st)
  case Nil
  then show ?case by simp
next
  case (Cons l ls)
  obtain p d where l: "l = (p, d)" by (cases l)
  show ?case
  proof (cases "patternCompiles regExp diff (p, d)")
    case False
    then show ?thesis
      using leafStep_fail [OF Cons.prems(1) False, of yamlStringify] l by simp
  next
    case True
    obtain f where
      step: "leafStep regExp yamlStringify diff p d st =
               Inr \<lparr> ws_formFields = ws_formFields st @ [f],
                     ws_infosAboutWhenFieldsShouldBeHidden =
                       ws_infosAboutWhenFieldsShouldBeHidden st @
                       [\<lparr> hi_path = p, hi_isHidden = isHiddenOf d \<rparr>],
                     ws_sensitiveConfigurations =
                       (case ws_sensitiveConfigurations st of
                          None \<Rightarrow> None
                        | Some flagged \<Rightarrow> Some (flagged @ violation regExp diff (p, d))),
                     ws_warnings = ws_warnings st @ renderWarning (commonOf p d) d \<rparr>"
      using leafStep_ok [of st regExp diff p d yamlStringify] True by blast
    have "\<not> list_all (patternCompiles regExp diff) ls"
      using Cons.prems(2) True l by simp
    moreover have "(case ws_sensitiveConfigurations st of
                          None \<Rightarrow> None
                        | Some flagged \<Rightarrow> Some (flagged @ violation regExp diff (p, d))) \<noteq> None"
      using Cons.prems(1) by (cases "ws_sensitiveConfigurations st") simp_all
    ultimately show ?thesis
      using Cons.IH step l by simp
  qed
qed

lemma getInitialFormFields_ok:
  assumes "saved \<Longrightarrow> list_all (patternCompiles regExp diff) (leaves props [])"
  shows "\<exists>fs ws. getInitialFormFields regExp yamlStringify saved diff
                    (JsonSchemaNode d0 (Some props)) =
               Inr \<lparr> formFields = fs,
                     infosAboutWhenFieldsShouldBeHidden =
                       map (\<lambda>l. \<lparr> hi_path = fst l, hi_isHidden = isHiddenOf (snd l) \<rparr>)
                         (leaves props []),
                     sensitiveConfigurations =
                       (if saved
                        then Some (concat (map (violation regExp diff) (leaves props [])))
                        else None),
                     warnings = ws \<rparr>
             \<and> map kindOf fs = map (\<lambda>l. classifyLeaf (snd l)) (leaves props [])
             \<and> map formFieldCommonOf fs =
                 map (\<lambda>l. commonOf (fst l) (snd l)) (leaves props [])"
proof -
  let ?st = "\<lparr> ws_formFields = [], ws_infosAboutWhenFieldsShouldBeHidden = [],
               ws_sensitiveConfigurations = (if saved then Some [] else None),
               ws_warnings = [] \<rparr>"
  have "ws_sensitiveConfigurations ?st = None
        \<or> list_all (patternCompiles regExp diff) (leaves props [])"
    using assms by auto
  from leafSteps_ok [OF this, of yamlStringify]
  obtain fs ws where
    run: "leafSteps regExp yamlStringify diff (leaves props []) ?st =
               Inr \<lparr> ws_formFields = ws_formFields ?st @ fs,
                     ws_infosAboutWhenFieldsShouldBeHidden =
                       ws_infosAboutWhenFieldsShouldBeHidden ?st @
                       map (\<lambda>l. \<lparr> hi_path = fst l, hi_isHidden = isHiddenOf (snd l) \<rparr>)
                         (leaves props []),
                     ws_sensitiveConfigurations =
                       (case ws_sensitiveConfigurations ?st of
                          None \<Rightarrow> None
                        | Some flagged \<Rightarrow>
                            Some (flagged @ concat (map (violation regExp diff) (leaves props [])))),
                     ws_warnings = ws \<rparr>"
    and ks: "map kindOf fs = map (\<lambda>l. classifyLeaf (snd l)) (leaves props [])"
    and cs: "map formFieldCommonOf fs = map (\<lambda>l. commonOf (fst l) (snd l)) (leaves props [])"
    by blast
  show ?thesis
    using run ks cs
    by (intro exI [of _ fs] exI [of _ ws])
       (simp add: getInitialFormFields_def callee_leafSteps)
qed

lemma getInitialFormFields_fail:
  assumes "saved" and "\<not> list_all (patternCompiles regExp diff) (leaves props [])"
  shows "getInitialFormFields regExp yamlStringify saved diff (JsonSchemaNode d0 (Some props)) =
           Inl SyntaxError"
proof -
  let ?st = "\<lparr> ws_formFields = [], ws_infosAboutWhenFieldsShouldBeHidden = [],
               ws_sensitiveConfigurations = (if saved then Some [] else None),
               ws_warnings = [] \<rparr>"
  have "ws_sensitiveConfigurations ?st \<noteq> None" using assms(1) by simp
  from leafSteps_fail [OF this assms(2), of yamlStringify]
  show ?thesis by (simp add: getInitialFormFields_def callee_leafSteps)
qed

text \<open>
  C1, as amended. When the walk compiles no security pattern that is not a regular
  expression, \<open>getInitialFormFields\<close> returns, and its form fields are one per leaf of
  the schema, in the order of the walk: the paths of the form fields are the paths of
  the leaves, and the kind of each field is the one that the leaf's declared type, its
  \<open>render\<close> hint, its \<open>sliderExtremity\<close> and the presence of \<open>enum\<close> give.
\<close>

theorem getInitialFormFields_one_field_per_leaf:
  assumes "saved \<Longrightarrow> list_all (patternCompiles regExp diff) (leaves props [])"
  shows "\<exists>r. getInitialFormFields regExp yamlStringify saved diff
                (JsonSchemaNode d0 (Some props)) = Inr r
           \<and> map (\<lambda>f. ff_path (formFieldCommonOf f)) (formFields r) =
               map fst (leaves props [])
           \<and> map kindOf (formFields r) =
               map (\<lambda>l. classify (d_type (snd l)) (d_render (snd l))
                          (d_sliderExtremity (snd l)) (d_enum (snd l) \<noteq> None))
                 (leaves props [])"
proof -
  obtain fs ws where
    full: "getInitialFormFields regExp yamlStringify saved diff
             (JsonSchemaNode d0 (Some props)) =
           Inr \<lparr> formFields = fs,
                 infosAboutWhenFieldsShouldBeHidden =
                   map (\<lambda>l. \<lparr> hi_path = fst l, hi_isHidden = isHiddenOf (snd l) \<rparr>)
                     (leaves props []),
                 sensitiveConfigurations =
                   (if saved
                    then Some (concat (map (violation regExp diff) (leaves props [])))
                    else None),
                 warnings = ws \<rparr>"
    and ks: "map kindOf fs = map (\<lambda>l. classifyLeaf (snd l)) (leaves props [])"
    and cs: "map formFieldCommonOf fs = map (\<lambda>l. commonOf (fst l) (snd l)) (leaves props [])"
    using getInitialFormFields_ok
            [where yamlStringify = yamlStringify and ?d0.0 = d0, OF assms]
    by blast
  define r where "r = \<lparr> formFields = fs,
                 infosAboutWhenFieldsShouldBeHidden =
                   map (\<lambda>l. \<lparr> hi_path = fst l, hi_isHidden = isHiddenOf (snd l) \<rparr>)
                     (leaves props []),
                 sensitiveConfigurations =
                   (if saved
                    then Some (concat (map (violation regExp diff) (leaves props [])))
                    else None),
                 warnings = ws \<rparr>"
  have r: "getInitialFormFields regExp yamlStringify saved diff
             (JsonSchemaNode d0 (Some props)) = Inr r"
    using full by (simp only: r_def)
  have fs: "formFields r = fs" by (simp add: r_def)
  have "map (\<lambda>f. ff_path (formFieldCommonOf f)) fs = map ff_path (map formFieldCommonOf fs)"
    by simp
  also have "\<dots> = map fst (leaves props [])"
    unfolding cs by (simp add: commonOf_path)
  finally have paths: "map (\<lambda>f. ff_path (formFieldCommonOf f)) fs = map fst (leaves props [])" .
  show ?thesis
    using r fs ks paths by (simp add: classifyLeaf_def)
qed

lemma leaves_exampleProperties:
  "leaves exampleProperties [] =
     [([''resources'', ''cpu''], (plainDescription ''string'')\<lparr> d_render := Some ''slider'' \<rparr>),
      ([''password''],
       (plainDescription ''string'')
         \<lparr> d_hidden := Some (HiddenReference ''resources/cpu'' (VString ''1'')),
           d_x_security := Some \<lparr> xs_pattern = Some ''^a$'' \<rparr> \<rparr>),
      ([''enabled''], (plainDescription ''boolean'')\<lparr> d_hidden := Some (HiddenBoolean True) \<rparr>)]"
  by (simp add: exampleProperties_def plainDescription_def)

lemma exampleProperties_compile:
  "list_all (patternCompiles exampleRegExp exampleValues) (leaves exampleProperties [])"
  by (simp add: leaves_exampleProperties patternCompiles_def testedPattern_def
        exampleRegExp_def exampleValues_def securityPatternOf_def isTextKind_def
        classifyLeaf_def classify_def plainDescription_def)

text \<open>
  The theorem on the example schema: a simple slider, a text field and a boolean, in
  this order.
\<close>

theorem getInitialFormFields_one_field_per_leaf_witness:
  "list_all (patternCompiles exampleRegExp exampleValues) (leaves exampleProperties [])
   \<and> (\<exists>r. getInitialFormFields exampleRegExp exampleYamlStringify True exampleValues
               (JsonSchemaNode (plainDescription ''object'') (Some exampleProperties)) = Inr r
          \<and> map (\<lambda>f. ff_path (formFieldCommonOf f)) (formFields r) =
              [[''resources'', ''cpu''], [''password''], [''enabled'']]
          \<and> map kindOf (formFields r) = [KindSliderSimple, KindText, KindBoolean])"
proof -
  note h = exampleProperties_compile
  show ?thesis
    using h getInitialFormFields_one_field_per_leaf
              [where saved = True and regExp = exampleRegExp and diff = exampleValues
                 and props = exampleProperties and yamlStringify = exampleYamlStringify
                 and ?d0.0 = "plainDescription ''object''", OF h]
    by (simp add: leaves_exampleProperties classify_def plainDescription_def)
qed

text \<open>
  C1 as stated fails: on a saved configuration with a value for the leaf \<open>token\<close>,
  whose security pattern \<open>(\<close> is not a regular expression, the walk throws a
  SyntaxError and no form field is pushed for the leaf.
\<close>

theorem getInitialFormFields_throws_on_invalid_pattern:
  "getInitialFormFields exampleRegExp exampleYamlStringify True
     [\<lparr> fv_path = [''token''], fv_value = VString ''x'' \<rparr>]
     (JsonSchemaNode (plainDescription ''object'') (Some brokenPatternProperties)) =
   Inl SyntaxError"
proof -
  have "\<not> list_all (patternCompiles exampleRegExp
                      [\<lparr> fv_path = [''token''], fv_value = VString ''x'' \<rparr>])
             (leaves brokenPatternProperties [])"
    by (simp add: brokenPatternProperties_def patternCompiles_def testedPattern_def
          exampleRegExp_def securityPatternOf_def isTextKind_def classifyLeaf_def
          classify_def plainDescription_def)
  then show ?thesis by (simp add: getInitialFormFields_fail)
qed

text \<open>
  C2, as amended. When the walk compiles no security pattern that is not a regular
  expression, \<open>getInitialFormFields\<close> returns, and its visibility entries are one per
  leaf, in the order of the walk, each with the path of its leaf and with \<open>isHidden\<close>:
  the boolean \<open>hidden\<close> when \<open>hidden\<close> is a boolean; \<open>hidden.path\<close> split at the
  slashes and \<open>hidden.value\<close> when \<open>hidden\<close> is an object; and when \<open>hidden\<close> is
  absent, the \<open>hidden\<close> of \<open>x-onyxia\<close> when there is one and false otherwise.
\<close>

theorem getInitialFormFields_visibility_entries:
  assumes "saved \<Longrightarrow> list_all (patternCompiles regExp diff) (leaves props [])"
  shows "\<exists>r. getInitialFormFields regExp yamlStringify saved diff
                (JsonSchemaNode d0 (Some props)) = Inr r
           \<and> infosAboutWhenFieldsShouldBeHidden r =
               map (\<lambda>l. \<lparr> hi_path = fst l,
                           hi_isHidden =
                             (case d_hidden (snd l) of
                                Some (HiddenBoolean b) \<Rightarrow> IsHiddenBoolean b
                              | Some (HiddenReference hp hv) \<Rightarrow>
                                  IsHiddenFormFieldValue
                                    \<lparr> fv_path = splitOn CHR ''/'' hp, fv_value = hv \<rparr>
                              | None \<Rightarrow>
                                  (case d_x_onyxia (snd l) of
                                     None \<Rightarrow> IsHiddenBoolean False
                                   | Some xo \<Rightarrow>
                                       (case xo_hidden xo of
                                          None \<Rightarrow> IsHiddenBoolean False
                                        | Some h \<Rightarrow> IsHiddenBoolean h))) \<rparr>)
                 (leaves props [])"
proof -
  have same: "isHiddenOf d =
      (case d_hidden d of
         Some (HiddenBoolean b) \<Rightarrow> IsHiddenBoolean b
       | Some (HiddenReference hp hv) \<Rightarrow>
           IsHiddenFormFieldValue \<lparr> fv_path = splitOn CHR ''/'' hp, fv_value = hv \<rparr>
       | None \<Rightarrow>
           (case d_x_onyxia d of
              None \<Rightarrow> IsHiddenBoolean False
            | Some xo \<Rightarrow>
                (case xo_hidden xo of
                   None \<Rightarrow> IsHiddenBoolean False
                 | Some h \<Rightarrow> IsHiddenBoolean h)))" for d
    by (simp add: isHiddenOf_def split: option.splits hidden.splits)
  obtain fs ws where
    full: "getInitialFormFields regExp yamlStringify saved diff
             (JsonSchemaNode d0 (Some props)) =
           Inr \<lparr> formFields = fs,
                 infosAboutWhenFieldsShouldBeHidden =
                   map (\<lambda>l. \<lparr> hi_path = fst l, hi_isHidden = isHiddenOf (snd l) \<rparr>)
                     (leaves props []),
                 sensitiveConfigurations =
                   (if saved
                    then Some (concat (map (violation regExp diff) (leaves props [])))
                    else None),
                 warnings = ws \<rparr>"
    using getInitialFormFields_ok
            [where yamlStringify = yamlStringify and ?d0.0 = d0, OF assms]
    by blast
  define r where "r = \<lparr> formFields = fs,
                 infosAboutWhenFieldsShouldBeHidden =
                   map (\<lambda>l. \<lparr> hi_path = fst l, hi_isHidden = isHiddenOf (snd l) \<rparr>)
                     (leaves props []),
                 sensitiveConfigurations =
                   (if saved
                    then Some (concat (map (violation regExp diff) (leaves props [])))
                    else None),
                 warnings = ws \<rparr>"
  have r: "getInitialFormFields regExp yamlStringify saved diff
             (JsonSchemaNode d0 (Some props)) = Inr r"
    using full by (simp only: r_def)
  have infos: "infosAboutWhenFieldsShouldBeHidden r =
          map (\<lambda>l. \<lparr> hi_path = fst l, hi_isHidden = isHiddenOf (snd l) \<rparr>) (leaves props [])"
    by (simp add: r_def)
  show ?thesis
    using r infos by (simp add: same)
qed

text \<open>The theorem on the example schema.\<close>

theorem getInitialFormFields_visibility_entries_witness:
  "list_all (patternCompiles exampleRegExp exampleValues) (leaves exampleProperties [])
   \<and> (\<exists>r. getInitialFormFields exampleRegExp exampleYamlStringify True exampleValues
               (JsonSchemaNode (plainDescription ''object'') (Some exampleProperties)) = Inr r
          \<and> infosAboutWhenFieldsShouldBeHidden r =
              [\<lparr> hi_path = [''resources'', ''cpu''], hi_isHidden = IsHiddenBoolean False \<rparr>,
               \<lparr> hi_path = [''password''],
                 hi_isHidden = IsHiddenFormFieldValue
                   \<lparr> fv_path = [''resources'', ''cpu''], fv_value = VString ''1'' \<rparr> \<rparr>,
               \<lparr> hi_path = [''enabled''], hi_isHidden = IsHiddenBoolean True \<rparr>])"
proof -
  note h = exampleProperties_compile
  show ?thesis
    using h getInitialFormFields_visibility_entries
              [where saved = True and regExp = exampleRegExp and diff = exampleValues
                 and props = exampleProperties and yamlStringify = exampleYamlStringify
                 and ?d0.0 = "plainDescription ''object''", OF h]
    by (simp add: leaves_exampleProperties plainDescription_def)
qed

text \<open>
  C2 as stated fails: the leaf \<open>enabled\<close> is followed by a leaf whose security
  pattern is not a regular expression; the walk throws and returns no visibility entry,
  neither for \<open>enabled\<close> nor for \<open>token\<close>.
\<close>

theorem getInitialFormFields_no_visibility_entries_on_invalid_pattern:
  "getInitialFormFields exampleRegExp exampleYamlStringify True
     [\<lparr> fv_path = [''token''], fv_value = VString ''secret'' \<rparr>]
     (JsonSchemaNode (plainDescription ''object'') (Some hiddenThenBrokenProperties)) =
   Inl SyntaxError"
proof -
  have "\<not> list_all (patternCompiles exampleRegExp
                      [\<lparr> fv_path = [''token''], fv_value = VString ''secret'' \<rparr>])
             (leaves hiddenThenBrokenProperties [])"
    by (simp add: hiddenThenBrokenProperties_def patternCompiles_def testedPattern_def
          exampleRegExp_def securityPatternOf_def isTextKind_def classifyLeaf_def
          classify_def plainDescription_def)
  then show ?thesis by (simp add: getInitialFormFields_fail)
qed

text \<open>
  C3, as amended. When the walk compiles no security pattern that is not a regular
  expression, \<open>getInitialFormFields\<close> returns. Its sensitive configurations are
  \<open>undefined\<close> when the restorable configuration is not saved. When it is saved they
  are, in the order of the walk, the \<open>{ path, value }\<close> of exactly the leaves that are
  given a text field (no slider, boolean, object, array, integer, number, list or enum),
  declare a pattern under \<open>x-security\<close>, have a value in
  \<open>formFieldsValueDifferentFromDefault\<close> (the first with their path), and whose value,
  printed as a string, the pattern does not match.
\<close>

theorem getInitialFormFields_sensitive_configurations:
  assumes "saved \<Longrightarrow> list_all (patternCompiles regExp diff) (leaves props [])"
  shows "\<exists>r. getInitialFormFields regExp yamlStringify saved diff
                (JsonSchemaNode d0 (Some props)) = Inr r
           \<and> sensitiveConfigurations r =
               (if saved then Some (concat (map (violation regExp diff) (leaves props [])))
                else None)"
proof -
  obtain fs ws where
    full: "getInitialFormFields regExp yamlStringify saved diff
             (JsonSchemaNode d0 (Some props)) =
           Inr \<lparr> formFields = fs,
                 infosAboutWhenFieldsShouldBeHidden =
                   map (\<lambda>l. \<lparr> hi_path = fst l, hi_isHidden = isHiddenOf (snd l) \<rparr>)
                     (leaves props []),
                 sensitiveConfigurations =
                   (if saved
                    then Some (concat (map (violation regExp diff) (leaves props [])))
                    else None),
                 warnings = ws \<rparr>"
    using getInitialFormFields_ok
            [where yamlStringify = yamlStringify and ?d0.0 = d0, OF assms]
    by blast
  show ?thesis
    unfolding full by simp
qed

lemma replicasProperties_compile:
  "list_all (patternCompiles digitsRegExp replicasValues) (leaves replicasProperties [])"
  by (simp add: replicasProperties_def patternCompiles_def testedPattern_def
        digitsRegExp_def replicasValues_def securityPatternOf_def isTextKind_def
        classifyLeaf_def classify_def plainDescription_def)

text \<open>
  The theorem on the example schema: the value \<open>b\<close> given for \<open>password\<close> does not
  match \<open>^a$\<close> and is flagged. And on the schema of \<open>replicas\<close>: the number \<open>1e+21\<close>
  is tested as the text \<open>1e+21\<close>, which is not a string of digits, and is flagged.
\<close>

theorem getInitialFormFields_sensitive_configurations_witness:
  "list_all (patternCompiles exampleRegExp exampleValues) (leaves exampleProperties [])
   \<and> (\<exists>r. getInitialFormFields exampleRegExp exampleYamlStringify True exampleValues
               (JsonSchemaNode (plainDescription ''object'') (Some exampleProperties)) = Inr r
          \<and> sensitiveConfigurations r =
              Some [\<lparr> fv_path = [''password''], fv_value = VString ''b'' \<rparr>])
   \<and> list_all (patternCompiles digitsRegExp replicasValues) (leaves replicasProperties [])
   \<and> (\<exists>r. getInitialFormFields digitsRegExp exampleYamlStringify True replicasValues
               (JsonSchemaNode (plainDescription ''object'') (Some replicasProperties)) = Inr r
          \<and> sensitiveConfigurations r =
              Some [\<lparr> fv_path = [''replicas''], fv_value = VNumber (JsNumber ''1e+21'') \<rparr>])"
proof -
  note h = exampleProperties_compile
  note k = replicasProperties_compile
  have v: "concat (map (violation exampleRegExp exampleValues) (leaves exampleProperties [])) =
             [\<lparr> fv_path = [''password''], fv_value = VString ''b'' \<rparr>]"
    by (simp add: leaves_exampleProperties violation_def exampleRegExp_def exampleValues_def
          securityPatternOf_def isTextKind_def classifyLeaf_def classify_def
          plainDescription_def templateString_def)
  have w: "concat (map (violation digitsRegExp replicasValues) (leaves replicasProperties [])) =
             [\<lparr> fv_path = [''replicas''], fv_value = VNumber (JsNumber ''1e+21'') \<rparr>]"
    by (simp add: replicasProperties_def violation_def digitsRegExp_def replicasValues_def
          securityPatternOf_def isTextKind_def classifyLeaf_def classify_def
          plainDescription_def templateString_def)
  have a: "\<exists>r. getInitialFormFields exampleRegExp exampleYamlStringify True exampleValues
               (JsonSchemaNode (plainDescription ''object'') (Some exampleProperties)) = Inr r
          \<and> sensitiveConfigurations r =
              Some [\<lparr> fv_path = [''password''], fv_value = VString ''b'' \<rparr>]"
    using getInitialFormFields_sensitive_configurations
              [where saved = True and regExp = exampleRegExp and diff = exampleValues
                 and props = exampleProperties and yamlStringify = exampleYamlStringify
                 and ?d0.0 = "plainDescription ''object''", OF h]
    by (simp add: v)
  have b: "\<exists>r. getInitialFormFields digitsRegExp exampleYamlStringify True replicasValues
               (JsonSchemaNode (plainDescription ''object'') (Some replicasProperties)) = Inr r
          \<and> sensitiveConfigurations r =
              Some [\<lparr> fv_path = [''replicas''], fv_value = VNumber (JsNumber ''1e+21'') \<rparr>]"
    using getInitialFormFields_sensitive_configurations
              [where saved = True and regExp = digitsRegExp and diff = replicasValues
                 and props = replicasProperties and yamlStringify = exampleYamlStringify
                 and ?d0.0 = "plainDescription ''object''", OF k]
    by (simp add: w)
  show ?thesis using h k a b by blast
qed

text \<open>
  C3 as stated fails twice. The same schema and values with a configuration that is
  not saved: nothing is flagged, the sensitive configurations are \<open>undefined\<close>. And a
  saved configuration whose leaf \<open>password\<close> is an enum with the pattern \<open>^a$\<close> and
  the value \<open>b\<close>: the list of sensitive configurations is empty.
\<close>

theorem getInitialFormFields_violations_not_flagged:
  "map_sum id sensitiveConfigurations
     (getInitialFormFields exampleRegExp exampleYamlStringify False exampleValues
        (JsonSchemaNode (plainDescription ''object'') (Some exampleProperties))) = Inr None
   \<and> map_sum id sensitiveConfigurations
     (getInitialFormFields exampleRegExp exampleYamlStringify True exampleValues
        (JsonSchemaNode (plainDescription ''object'') (Some enumWithPatternProperties))) =
      Inr (Some [])"
proof -
  have a: "False \<Longrightarrow> list_all (patternCompiles exampleRegExp exampleValues)
                 (leaves exampleProperties [])"
    by simp
  have b: "True \<Longrightarrow> list_all (patternCompiles exampleRegExp exampleValues)
                 (leaves enumWithPatternProperties [])"
    by (simp add: enumWithPatternProperties_def patternCompiles_def testedPattern_def
          isTextKind_def classifyLeaf_def classify_def plainDescription_def)
  have v: "concat (map (violation exampleRegExp exampleValues)
                     (leaves enumWithPatternProperties [])) = []"
    by (simp add: enumWithPatternProperties_def violation_def isTextKind_def classifyLeaf_def
          classify_def plainDescription_def)
  show ?thesis
    using getInitialFormFields_ok
            [where saved = False and regExp = exampleRegExp and diff = exampleValues
               and props = exampleProperties and yamlStringify = exampleYamlStringify
               and ?d0.0 = "plainDescription ''object''", OF a]
          getInitialFormFields_ok
            [where saved = True and regExp = exampleRegExp and diff = exampleValues
               and props = enumWithPatternProperties and yamlStringify = exampleYamlStringify
               and ?d0.0 = "plainDescription ''object''", OF b] v
    by auto
qed

subsection \<open>getXOnyxiaContext\<close>

lemma redacted_not_inject:
  "p_group (in_project i) \<noteq> None \<Longrightarrow> in_disablePersonalInfosInjectionInGroup i \<Longrightarrow>
   \<not> doInjectPersonalInfos i"
  by (simp add: doInjectPersonalInfos_def)

lemma s3Block_redacted:
  assumes "\<not> doInjectPersonalInfos i"
  shows "s3Block parseUrl bucketNameFromS3Path i =
     (case cs3_indexForXOnyxia (in_customS3Configs i) of
        Some idx \<Rightarrow>
          (if idx < length (cs3_availableConfigs (in_customS3Configs i)) then
             (let dataSource = cs3_availableConfigs (in_customS3Configs i) ! idx
              in Inr \<lparr> AWS_ACCESS_KEY_ID = ds_accessKeyId dataSource,
                       AWS_SECRET_ACCESS_KEY = ds_secretAccessKey dataSource,
                       AWS_SESSION_TOKEN =
                         (case ds_sessionToken dataSource of None \<Rightarrow> [] | Some t \<Rightarrow> t),
                       AWS_BUCKET_NAME =
                         bucketNameFromS3Path (ds_workingDirectoryPath dataSource),
                       AWS_DEFAULT_REGION = ds_region dataSource,
                       AWS_S3_ENDPOINT = fst (parseUrl (ds_url dataSource)),
                       s3_port = (case snd (parseUrl (ds_url dataSource)) of
                                    None \<Rightarrow> 443 | Some p \<Rightarrow> p),
                       s3_pathStyleAccess = ds_pathStyleAccess dataSource \<rparr>)
           else Inl AssertionError)
      | None \<Rightarrow>
          (case (case r_s3Params (in_region i) of
                   None \<Rightarrow> None
                 | Some s3Params \<Rightarrow>
                     (case s3p_sts s3Params of None \<Rightarrow> None | Some sts \<Rightarrow> Some s3Params)) of
             None \<Rightarrow>
               Inr \<lparr> AWS_ACCESS_KEY_ID = [], AWS_SECRET_ACCESS_KEY = [],
                     AWS_SESSION_TOKEN = [], AWS_BUCKET_NAME = [], AWS_DEFAULT_REGION = [],
                     AWS_S3_ENDPOINT = [], s3_port = 0, s3_pathStyleAccess = True \<rparr>
           | Some s3Params \<Rightarrow>
               Inr \<lparr> AWS_ACCESS_KEY_ID = [], AWS_SECRET_ACCESS_KEY = [],
                     AWS_SESSION_TOKEN = [],
                     AWS_BUCKET_NAME =
                       (case s3p_workingDirectory s3Params of
                          BucketModeMulti prefix prefixGroup \<Rightarrow>
                            (case p_group (in_project i) of
                               None \<Rightarrow> prefixGroup @ ''undefined''
                             | Some g \<Rightarrow> prefix @ u_username (in_user i))
                        | BucketModeShared sharedName \<Rightarrow> sharedName),
                     AWS_DEFAULT_REGION =
                       (case s3p_region s3Params of None \<Rightarrow> [] | Some r \<Rightarrow> r),
                     AWS_S3_ENDPOINT = fst (parseUrl (s3p_url s3Params)),
                     s3_port = (case snd (parseUrl (s3p_url s3Params)) of
                                  None \<Rightarrow> 443 | Some p \<Rightarrow> p),
                     s3_pathStyleAccess = s3p_pathStyleAccess s3Params \<rparr>))"
  using assms
  by (simp add: s3Block_def s3Credentials_def Let_def split_beta split: option.splits)

lemma s3Block_personal_independent:
  assumes "p_group (in_project i) \<noteq> None" and "in_disablePersonalInfosInjectionInGroup i"
  shows "s3Block parseUrl bucketNameFromS3Path
           (i\<lparr> in_publicIp := ip,
               in_userConfigs := (in_userConfigs i)
                 \<lparr> uc_gitName := gitName, uc_gitEmail := gitEmail,
                   uc_gitCredentialCacheDuration := cacheDuration,
                   uc_githubPersonalAccessToken := githubToken,
                   uc_kaggleApiToken := kaggleToken \<rparr>,
               in_vaultToken := vaultToken, in_s3Token := stsToken \<rparr>) =
         s3Block parseUrl bucketNameFromS3Path i"
proof -
  let ?j = "i\<lparr> in_publicIp := ip,
               in_userConfigs := (in_userConfigs i)
                 \<lparr> uc_gitName := gitName, uc_gitEmail := gitEmail,
                   uc_gitCredentialCacheDuration := cacheDuration,
                   uc_githubPersonalAccessToken := githubToken,
                   uc_kaggleApiToken := kaggleToken \<rparr>,
               in_vaultToken := vaultToken, in_s3Token := stsToken \<rparr>"
  have i: "\<not> doInjectPersonalInfos i" using assms by (rule redacted_not_inject)
  have j: "\<not> doInjectPersonalInfos ?j" using assms by (simp add: doInjectPersonalInfos_def)
  show ?thesis
    unfolding s3Block_redacted [OF i] s3Block_redacted [OF j]
    by (simp add: Let_def cong: option.case_cong workingDirectory.case_cong if_cong)
qed

lemma vaultBlock_redacted:
  assumes "\<not> doInjectPersonalInfos i"
  shows "VAULT_TOKEN (vaultBlock i) = []"
  using assms by (simp add: vaultBlock_def split: option.splits)

lemma vaultBlock_personal_independent:
  assumes "p_group (in_project i) \<noteq> None" and "in_disablePersonalInfosInjectionInGroup i"
  shows "vaultBlock
           (i\<lparr> in_publicIp := ip,
               in_userConfigs := (in_userConfigs i)
                 \<lparr> uc_gitName := gitName, uc_gitEmail := gitEmail,
                   uc_gitCredentialCacheDuration := cacheDuration,
                   uc_githubPersonalAccessToken := githubToken,
                   uc_kaggleApiToken := kaggleToken \<rparr>,
               in_vaultToken := vaultToken, in_s3Token := stsToken \<rparr>) =
         vaultBlock i"
  using assms
  by (simp add: vaultBlock_def doInjectPersonalInfos_def cong: option.case_cong)

text \<open>
  C8, as amended. When the project has a group and personal-info injection in groups
  is disabled, the context is the same whatever the personal inputs are: the public
  IP, the git name, email, cache duration and token, the Kaggle token, the Vault token
  and the S3 token of the user. The function throws only when the index of the
  project's custom S3 configuration is out of range. In the context it returns,
  \<open>user.ip\<close> is \<open>0.0.0.0\<close>, the git block has empty name and email, cache
  duration 0 and no token, \<open>VAULT_TOKEN\<close> is empty and \<open>kaggleApiToken\<close> is
  \<open>undefined\<close>. \<open>AWS_ACCESS_KEY_ID\<close>, \<open>AWS_SECRET_ACCESS_KEY\<close> and
  \<open>AWS_SESSION_TOKEN\<close> are empty when the project's configuration chooses no custom
  S3 configuration for the context; when it chooses one they are the access key, the
  secret key and the session token (empty when absent) of that configuration.
\<close>

theorem getXOnyxiaContext_redacts_personal_infos:
  assumes grp: "p_group (in_project i) \<noteq> None"
    and dis: "in_disablePersonalInfosInjectionInGroup i"
  shows "getXOnyxiaContext parseUrl bucketNameFromS3Path btoaUtf8
           (i\<lparr> in_publicIp := ip,
               in_userConfigs := (in_userConfigs i)
                 \<lparr> uc_gitName := gitName, uc_gitEmail := gitEmail,
                   uc_gitCredentialCacheDuration := cacheDuration,
                   uc_githubPersonalAccessToken := githubToken,
                   uc_kaggleApiToken := kaggleToken \<rparr>,
               in_vaultToken := vaultToken, in_s3Token := stsToken \<rparr>) =
         getXOnyxiaContext parseUrl bucketNameFromS3Path btoaUtf8 i
       \<and> (case getXOnyxiaContext parseUrl bucketNameFromS3Path btoaUtf8 i of
            Inl e \<Rightarrow>
              e = AssertionError
              \<and> (case cs3_indexForXOnyxia (in_customS3Configs i) of
                   None \<Rightarrow> False
                 | Some idx \<Rightarrow> length (cs3_availableConfigs (in_customS3Configs i)) \<le> idx)
          | Inr r \<Rightarrow>
              user_ip (ctx_user r) = ''0.0.0.0''
              \<and> ctx_git r = \<lparr> git_name = [], git_email = [],
                               git_credentials_cache_duration = 0, git_token = None \<rparr>
              \<and> VAULT_TOKEN (ctx_vault r) = []
              \<and> ctx_kaggleApiToken r = None
              \<and> (AWS_ACCESS_KEY_ID (ctx_s3 r), AWS_SECRET_ACCESS_KEY (ctx_s3 r),
                  AWS_SESSION_TOKEN (ctx_s3 r)) =
                 (case cs3_indexForXOnyxia (in_customS3Configs i) of
                    None \<Rightarrow> ([], [], [])
                  | Some idx \<Rightarrow>
                      (ds_accessKeyId (cs3_availableConfigs (in_customS3Configs i) ! idx),
                       ds_secretAccessKey (cs3_availableConfigs (in_customS3Configs i) ! idx),
                       (case ds_sessionToken
                               (cs3_availableConfigs (in_customS3Configs i) ! idx) of
                          None \<Rightarrow> []
                        | Some t \<Rightarrow> t))))"
proof -
  let ?j = "i\<lparr> in_publicIp := ip,
               in_userConfigs := (in_userConfigs i)
                 \<lparr> uc_gitName := gitName, uc_gitEmail := gitEmail,
                   uc_gitCredentialCacheDuration := cacheDuration,
                   uc_githubPersonalAccessToken := githubToken,
                   uc_kaggleApiToken := kaggleToken \<rparr>,
               in_vaultToken := vaultToken, in_s3Token := stsToken \<rparr>"
  have ni: "\<not> doInjectPersonalInfos i" using grp dis by (rule redacted_not_inject)
  have nj: "\<not> doInjectPersonalInfos ?j" using grp dis by (simp add: doInjectPersonalInfos_def)
  have s3: "s3Block parseUrl bucketNameFromS3Path ?j = s3Block parseUrl bucketNameFromS3Path i"
    using grp dis by (rule s3Block_personal_independent)
  have vb: "vaultBlock ?j = vaultBlock i"
    using grp dis by (rule vaultBlock_personal_independent)
  have same: "getXOnyxiaContext parseUrl bucketNameFromS3Path btoaUtf8 ?j =
              getXOnyxiaContext parseUrl bucketNameFromS3Path btoaUtf8 i"
    unfolding getXOnyxiaContext_def s3 vb
    using ni nj by (simp cong: sum.case_cong)
  have fields: "(case getXOnyxiaContext parseUrl bucketNameFromS3Path btoaUtf8 i of
            Inl e \<Rightarrow>
              e = AssertionError
              \<and> (case cs3_indexForXOnyxia (in_customS3Configs i) of
                   None \<Rightarrow> False
                 | Some idx \<Rightarrow> length (cs3_availableConfigs (in_customS3Configs i)) \<le> idx)
          | Inr r \<Rightarrow>
              user_ip (ctx_user r) = ''0.0.0.0''
              \<and> ctx_git r = \<lparr> git_name = [], git_email = [],
                               git_credentials_cache_duration = 0, git_token = None \<rparr>
              \<and> VAULT_TOKEN (ctx_vault r) = []
              \<and> ctx_kaggleApiToken r = None
              \<and> (AWS_ACCESS_KEY_ID (ctx_s3 r), AWS_SECRET_ACCESS_KEY (ctx_s3 r),
                  AWS_SESSION_TOKEN (ctx_s3 r)) =
                 (case cs3_indexForXOnyxia (in_customS3Configs i) of
                    None \<Rightarrow> ([], [], [])
                  | Some idx \<Rightarrow>
                      (ds_accessKeyId (cs3_availableConfigs (in_customS3Configs i) ! idx),
                       ds_secretAccessKey (cs3_availableConfigs (in_customS3Configs i) ! idx),
                       (case ds_sessionToken
                               (cs3_availableConfigs (in_customS3Configs i) ! idx) of
                          None \<Rightarrow> []
                        | Some t \<Rightarrow> t))))"
    unfolding getXOnyxiaContext_def s3Block_redacted [OF ni]
    using ni vaultBlock_redacted [OF ni]
    by (simp add: Let_def split: option.splits)
  from same fields show ?thesis by (rule conjI)
qed

text \<open>
  The theorem on the example inputs: other personal inputs give the same context, and
  the redacted members are the constants.
\<close>

theorem getXOnyxiaContext_redacts_witness:
  "p_group (in_project exampleInputs) \<noteq> None
   \<and> in_disablePersonalInfosInjectionInGroup exampleInputs
   \<and> getXOnyxiaContext exampleParseUrl id id
        (exampleInputs\<lparr> in_publicIp := ''198.51.100.9'',
           in_userConfigs := (in_userConfigs exampleInputs)
             \<lparr> uc_gitName := ''John Roe'', uc_gitEmail := ''john@example.org'',
               uc_gitCredentialCacheDuration := 0,
               uc_githubPersonalAccessToken := None,
               uc_kaggleApiToken := None \<rparr>,
           in_vaultToken := ''hvs.other'',
           in_s3Token := \<lparr> tok_accessKeyId = ''K2'', tok_secretAccessKey = ''S2'',
                            tok_sessionToken = None \<rparr> \<rparr>) =
       getXOnyxiaContext exampleParseUrl id id exampleInputs
   \<and> map_sum id (\<lambda>r. (user_ip (ctx_user r), VAULT_TOKEN (ctx_vault r),
                       ctx_kaggleApiToken r, AWS_ACCESS_KEY_ID (ctx_s3 r)))
        (getXOnyxiaContext exampleParseUrl id id exampleInputs) =
       Inr (''0.0.0.0'', [], None, [])"
proof -
  have g: "p_group (in_project exampleInputs) \<noteq> None"
    by (simp add: exampleInputs_def)
  have d: "in_disablePersonalInfosInjectionInGroup exampleInputs"
    by (simp add: exampleInputs_def)
  have idx: "cs3_indexForXOnyxia (in_customS3Configs exampleInputs) = None"
    by (simp add: exampleInputs_def)
  note inst = getXOnyxiaContext_redacts_personal_infos
                [where i = exampleInputs and parseUrl = exampleParseUrl
                   and bucketNameFromS3Path = id
                   and ?btoaUtf8.0 = id and ip = "''198.51.100.9''" and gitName = "''John Roe''"
                   and gitEmail = "''john@example.org''" and cacheDuration = 0
                   and githubToken = None and kaggleToken = None
                   and vaultToken = "''hvs.other''"
                   and stsToken = "\<lparr> tok_accessKeyId = ''K2'', tok_secretAccessKey = ''S2'',
                      tok_sessionToken = None \<rparr>", OF g d]
  show ?thesis
    using g d inst idx
    by (cases "getXOnyxiaContext exampleParseUrl id id exampleInputs") simp_all
qed

text \<open>
  C8 as stated fails: the project is a group project with injection disabled, and its
  configuration chooses a custom S3 configuration for the context. The three AWS
  members are the credentials of that configuration, not empty strings.
\<close>

theorem getXOnyxiaContext_custom_s3_not_redacted:
  "p_group (in_project (exampleInputs\<lparr> in_customS3Configs := exampleCustomS3Configs \<rparr>)) =
     Some ''team''
   \<and> in_disablePersonalInfosInjectionInGroup
        (exampleInputs\<lparr> in_customS3Configs := exampleCustomS3Configs \<rparr>)
   \<and> map_sum id (AWS_ACCESS_KEY_ID \<circ> ctx_s3)
        (getXOnyxiaContext exampleParseUrl id id
           (exampleInputs\<lparr> in_customS3Configs := exampleCustomS3Configs \<rparr>)) =
       Inr ''CUSTOMKEY''
   \<and> map_sum id (AWS_SECRET_ACCESS_KEY \<circ> ctx_s3)
        (getXOnyxiaContext exampleParseUrl id id
           (exampleInputs\<lparr> in_customS3Configs := exampleCustomS3Configs \<rparr>)) =
       Inr ''CUSTOMSECRET''"
  by (simp add: getXOnyxiaContext_def s3Block_def exampleInputs_def exampleCustomS3Configs_def
        exampleParseUrl_def Let_def)

end
